theory Spec2Isabelle
  imports Main
begin

section \<open>The C\# generator for Babel specifications (csharp.babelg.py)\<close>

text \<open>
  The generator walks a read-only type model (namespaces, structs, unions, fields) and
  emits C\# source text. The model below follows the Python source function by function.
  Names are ASCII strings; the emitted C\# is kept as a small syntax tree whose rendering
  (\<open>render_stmts\<close>) gives back the text of each \<open>self.emit\<close> call.
\<close>

subsection \<open>Errors raised by the generator\<close>

datatype error =
    IndexError            \<comment> \<open>\<open>public[0]\<close> on an empty public name\<close>
  | NotImplementedError   \<comment> \<open>a default on a struct-typed field\<close>
  | AssertionError        \<comment> \<open>a failed \<open>assert\<close>\<close>

definition bind_err :: "error + 'a \<Rightarrow> ('a \<Rightarrow> error + 'b) \<Rightarrow> error + 'b" where
  "bind_err m k = (case m of Inl e \<Rightarrow> Inl e | Inr x \<Rightarrow> k x)"

fun map_err :: "('a \<Rightarrow> error + 'b) \<Rightarrow> 'a list \<Rightarrow> error + 'b list" where
  "map_err g [] = Inr []"
| "map_err g (x # xs) =
     (case g x of Inl e \<Rightarrow> Inl e
      | Inr y \<Rightarrow> (case map_err g xs of Inl e \<Rightarrow> Inl e | Inr ys \<Rightarrow> Inr (y # ys)))"

subsection \<open>The identifier engine\<close>

definition is_upper :: "char \<Rightarrow> bool" where
  "is_upper c = (65 \<le> (of_char c :: nat) \<and> (of_char c :: nat) \<le> 90)"

definition is_lower :: "char \<Rightarrow> bool" where
  "is_lower c = (97 \<le> (of_char c :: nat) \<and> (of_char c :: nat) \<le> 122)"

definition is_digit :: "char \<Rightarrow> bool" where
  "is_digit c = (48 \<le> (of_char c :: nat) \<and> (of_char c :: nat) \<le> 57)"

definition lower_char :: "char \<Rightarrow> char" where
  "lower_char c = (if is_upper c then char_of ((of_char c :: nat) + 32) else c)"

definition upper_char :: "char \<Rightarrow> char" where
  "upper_char c = (if is_lower c then char_of ((of_char c :: nat) - 32) else c)"

text \<open>\<open>str.lower()\<close> and \<open>str.capitalize()\<close>.\<close>

definition lower :: "string \<Rightarrow> string" where
  "lower s = map lower_char s"

fun capitalize :: "string \<Rightarrow> string" where
  "capitalize [] = []"
| "capitalize (c # cs) = upper_char c # lower cs"

text \<open>\<open>name.replace('/', '_')\<close>.\<close>

definition replace_slash :: "string \<Rightarrow> string" where
  "replace_slash s = map (\<lambda>c. if c = CHR ''/'' then CHR ''_'' else c) s"

text \<open>
  \<open>_CAMEL_CASE_RE.sub(r'_\1', name)\<close> with
  \<open>_CAMEL_CASE_RE = '((?<=[a-z0-9])[A-Z]|(?!^)[A-Z](?=[a-z]))'\<close>: every match is one
  upper-case letter, so matches never overlap and each is decided by the characters next
  to it in the input. The first argument is the character before the current position
  (\<open>None\<close> at the start of the string).
\<close>

fun camel_case_sub :: "char option \<Rightarrow> string \<Rightarrow> string" where
  "camel_case_sub prev [] = []"
| "camel_case_sub prev (c # cs) =
     (if is_upper c \<and>
         ((case prev of None \<Rightarrow> False | Some p \<Rightarrow> is_lower p \<or> is_digit p) \<or>
          (prev \<noteq> None \<and> (case cs of [] \<Rightarrow> False | d # _ \<Rightarrow> is_lower d)))
      then [CHR ''_'', c] else [c]) @ camel_case_sub (Some c) cs"

text \<open>\<open>s.split(sep)\<close> for a one-character separator, and \<open>sep.join(words)\<close>.\<close>

fun split_char :: "char \<Rightarrow> string \<Rightarrow> string list" where
  "split_char sep [] = [[]]"
| "split_char sep (c # cs) =
     (if c = sep then [] # split_char sep cs
      else (case split_char sep cs of [] \<Rightarrow> [[c]] | w # ws \<Rightarrow> (c # w) # ws))"

fun join :: "string \<Rightarrow> string list \<Rightarrow> string" where
  "join sep [] = []"
| "join sep [w] = w"
| "join sep (w # v # ws) = w @ sep @ join sep (v # ws)"

text \<open>
  \<open>_segment_name\<close>, \<open>_public_name\<close>, \<open>_arg_name\<close> and \<open>_name_words\<close>. The
  \<open>memo_one\<close> decorator caches the result per argument; the functions are pure, so the
  cache does not change what they return.
\<close>

definition segment_name :: "string \<Rightarrow> string list" where
  "segment_name name = split_char (CHR ''_'') (lower (camel_case_sub None (replace_slash name)))"

definition public_name :: "string \<Rightarrow> string" where
  "public_name name = concat (map capitalize (segment_name name))"

definition CSHARP_KEYWORDS :: "string list" where
  "CSHARP_KEYWORDS =
    [''abstract'', ''add'', ''alias'', ''as'', ''ascending'', ''async'', ''await'',
     ''base'', ''bool'', ''break'', ''byte'', ''case'', ''catch'', ''char'', ''checked'',
     ''class'', ''const'', ''continue'', ''decimal'', ''default'', ''delegate'',
     ''descending'', ''do'', ''double'', ''dynamic'', ''else'', ''enum'', ''event'',
     ''explicit'', ''extern'', ''false'', ''finally'', ''fixed'', ''float'', ''for'',
     ''foreach'', ''from'', ''get'', ''global'', ''goto'', ''group'', ''if'', ''implicit'',
     ''in'', ''int'', ''interface'', ''internal'', ''into'', ''is'', ''join'', ''let'',
     ''lock'', ''long'', ''namespace'', ''new'', ''null'', ''object'', ''operator'',
     ''orderby'', ''out'', ''override'', ''params'', ''partial'', ''private'',
     ''protected'', ''public'', ''readonly'', ''ref'', ''remove'', ''return'', ''sbyte'',
     ''sealed'', ''select'', ''set'', ''short'', ''sizeof'', ''stackalloc'', ''static'',
     ''string'', ''struct'', ''switch'', ''this'', ''throw'', ''true'', ''try'', ''typeof'',
     ''uint'', ''ulong'', ''unchecked'', ''unsafe'', ''ushort'', ''using'', ''value'',
     ''var'', ''virtual'', ''void'', ''volatile'', ''where'', ''while'', ''yield'']"

definition arg_name :: "string \<Rightarrow> error + string" where
  "arg_name name =
     (case public_name name of
        [] \<Rightarrow> Inl IndexError
      | c # cs \<Rightarrow>
          (let a = lower_char c # cs
           in if a \<in> set CSHARP_KEYWORDS then Inr (CHR ''@'' # a) else Inr a))"

definition name_words :: "string \<Rightarrow> string" where
  "name_words name = join '' '' (segment_name name)"

subsection \<open>The type model (babelapi.data_type)\<close>

text \<open>
  The type model is built and validated by babelapi before the generator runs; the
  generator only reads it. A modelled type carries at most one nullable layer, so the
  nullable wrapper is a constructor of \<open>data_type\<close> over the unwrapped types. Bounds
  (\<open>min_value\<close>, \<open>max_length\<close>, \<open>min_items\<close>, ...) and literal defaults are held as the
  text that \<open>'{0}'.format(value)\<close> prints, since the generator only ever formats them.
\<close>

datatype num_kind = Int32 | UInt32 | Int64 | UInt64 | Float32 | Float64

datatype composite_kind = StructType | UnionType

datatype plain_type =
    Void
  | Boolean
  | Numeric num_kind "string option" "string option"
      \<comment> \<open>kind, \<open>min_value\<close>, \<open>max_value\<close>\<close>
  | String "string option" "string option" "string option"
      \<comment> \<open>\<open>min_length\<close>, \<open>max_length\<close>, \<open>pattern\<close>\<close>
  | Binary
  | Timestamp
  | List data_type "string option" "string option"
      \<comment> \<open>element type, \<open>min_items\<close>, \<open>max_items\<close>\<close>
  | Composite composite_kind string string
      \<comment> \<open>struct or union, \<open>name\<close>, \<open>namespace.name\<close>\<close>
and data_type =
    Plain plain_type
  | Nullable plain_type

definition is_nullable_type :: "data_type \<Rightarrow> bool" where
  "is_nullable_type dt = (case dt of Nullable _ \<Rightarrow> True | Plain _ \<Rightarrow> False)"

text \<open>\<open>data_type.data_type\<close> of a nullable type, else the type itself.\<close>

definition unwrap_nullable :: "data_type \<Rightarrow> data_type" where
  "unwrap_nullable dt = (case dt of Nullable b \<Rightarrow> Plain b | Plain b \<Rightarrow> Plain b)"

definition is_composite_type :: "data_type \<Rightarrow> bool" where
  "is_composite_type dt = (case dt of Plain (Composite _ _ _) \<Rightarrow> True | _ \<Rightarrow> False)"

definition is_struct_type :: "data_type \<Rightarrow> bool" where
  "is_struct_type dt = (case dt of Plain (Composite StructType _ _) \<Rightarrow> True | _ \<Rightarrow> False)"

definition is_union_type :: "data_type \<Rightarrow> bool" where
  "is_union_type dt = (case dt of Plain (Composite UnionType _ _) \<Rightarrow> True | _ \<Rightarrow> False)"

definition is_list_type :: "data_type \<Rightarrow> bool" where
  "is_list_type dt = (case dt of Plain (List _ _ _) \<Rightarrow> True | _ \<Rightarrow> False)"

definition is_string_type :: "data_type \<Rightarrow> bool" where
  "is_string_type dt = (case dt of Plain (String _ _ _) \<Rightarrow> True | _ \<Rightarrow> False)"

definition is_void_type :: "data_type \<Rightarrow> bool" where
  "is_void_type dt = (case dt of Plain Void \<Rightarrow> True | _ \<Rightarrow> False)"

definition is_numeric_type :: "data_type \<Rightarrow> bool" where
  "is_numeric_type dt = (case dt of Plain (Numeric _ _ _) \<Rightarrow> True | _ \<Rightarrow> False)"

text \<open>The element type of a list type (\<open>data_type.data_type\<close>).\<close>

definition list_element_type :: "data_type \<Rightarrow> data_type" where
  "list_element_type dt = (case dt of Plain (List e _ _) \<Rightarrow> e | _ \<Rightarrow> dt)"

text \<open>
  A default is a Python literal or a reference to a union tag (\<open>TagRef\<close> with
  \<open>union_data_type.name\<close> and \<open>tag_name\<close>).
\<close>

datatype literal =
    LitBool bool
  | LitText string        \<comment> \<open>any other literal, as \<open>format\<close> prints it\<close>
  | TagRef string string

record field =
  field_name :: string
  field_data_type :: data_type
  field_has_default :: bool
  field_default :: literal

text \<open>
  A struct with its parent chain. \<open>enumerated_subtypes\<close> pairs each subtype's tag
  (\<open>subtype.name\<close>) with the reference to the subtype struct (\<open>subtype.data_type\<close>);
  babelapi's \<open>has_enumerated_subtypes()\<close> is \<open>bool(self._enumerated_subtypes)\<close>.
\<close>

datatype struct =
  Struct (struct_name: string) (struct_namespace: string) (struct_fields: "field list")
    (parent_type: "struct option") (enumerated_subtypes: "(string \<times> data_type) list")
    (is_catch_all: bool)

fun all_fields :: "struct \<Rightarrow> field list" where
  "all_fields (Struct n nsn fs p subs ca) =
     (case p of None \<Rightarrow> [] | Some q \<Rightarrow> all_fields q) @ fs"

definition has_enumerated_subtypes :: "struct \<Rightarrow> bool" where
  "has_enumerated_subtypes s = (enumerated_subtypes s \<noteq> [])"

text \<open>The reference by which other types name this struct.\<close>

definition struct_ref :: "struct \<Rightarrow> data_type" where
  "struct_ref s = Plain (Composite StructType (struct_name s) (struct_namespace s))"

record union_field =
  ufield_name :: string
  ufield_data_type :: data_type

record union =
  union_name :: string
  union_namespace :: string
  union_fields :: "union_field list"
  catch_all_field :: "union_field option"

subsection \<open>Generator state and scope-local names\<close>

text \<open>
  \<open>_ns\<close> is the public name of the namespace being generated; \<open>_name_list\<close> is the stack
  of locally declared names and \<open>_prevent_collisions\<close> the set of all names on it.
\<close>

record gen_state =
  ns :: string
  name_list :: "string list list"
  prevent_collisions :: "string set"

definition DEFAULT_NAMESPACE :: string where
  "DEFAULT_NAMESPACE = ''Dropbox.Api.''"

text \<open>The state after \<open>__init__\<close> once \<open>_generate_namespace\<close> has set \<open>_ns\<close>.\<close>

definition initial_state :: "string \<Rightarrow> gen_state" where
  "initial_state ns_name = \<lparr>ns = ns_name, name_list = [], prevent_collisions = {}\<rparr>"

text \<open>
  The context manager \<open>_local_names(names)\<close>: the code before its \<open>yield\<close>, the code
  after it, and the \<open>with\<close> statement around a body that reads the state.
\<close>

definition local_names_enter :: "string list \<Rightarrow> gen_state \<Rightarrow> gen_state" where
  "local_names_enter names st =
     st\<lparr>name_list := name_list st @ [names],
        prevent_collisions := set (concat (name_list st @ [names]))\<rparr>"

definition local_names_exit :: "gen_state \<Rightarrow> gen_state" where
  "local_names_exit st =
     st\<lparr>name_list := butlast (name_list st),
        prevent_collisions := set (concat (butlast (name_list st)))\<rparr>"

definition with_local_names ::
  "string list \<Rightarrow> (gen_state \<Rightarrow> 'a) \<Rightarrow> gen_state \<Rightarrow> 'a \<times> gen_state" where
  "with_local_names names body st =
     (let inside = local_names_enter names st
      in (body inside, local_names_exit inside))"

subsection \<open>The type mapper\<close>

text \<open>
  \<open>_typename(data_type, void=None, is_property=False)\<close>. \<open>typename_plain\<close> is the body
  after the nullable layer has been taken off, with the flag \<open>nullable\<close>.
\<close>

fun typename_plain :: "gen_state \<Rightarrow> bool \<Rightarrow> plain_type \<Rightarrow> string option \<Rightarrow> bool \<Rightarrow> string"
  and typename :: "gen_state \<Rightarrow> data_type \<Rightarrow> string option \<Rightarrow> bool \<Rightarrow> string" where
  "typename_plain st nullable (Composite k name nsn) void is_property =
     (let public = public_name name;
          type_ns = public_name nsn;
          public = (if type_ns \<noteq> ns st then type_ns @ ''.'' @ public else public)
      in if public \<in> prevent_collisions st
         then DEFAULT_NAMESPACE @ ns st @ ''.'' @ public
         else public)"
| "typename_plain st nullable (List e mn mx) void is_property =
     (if is_property then ''col.IList<'' @ typename st e None False @ ''>''
      else ''col.IEnumerable<'' @ typename st e None False @ ''>'')"
| "typename_plain st nullable (String mn mx pat) void is_property = ''string''"
| "typename_plain st nullable Binary void is_property = ''byte[]''"
| "typename_plain st nullable Boolean void is_property =
     ''bool'' @ (if nullable then ''?'' else [])"
| "typename_plain st nullable (Numeric k mn mx) void is_property =
     (case k of Int32 \<Rightarrow> ''int'' | UInt32 \<Rightarrow> ''uint'' | Int64 \<Rightarrow> ''long''
      | UInt64 \<Rightarrow> ''ulong'' | Float32 \<Rightarrow> ''float'' | Float64 \<Rightarrow> ''double'')
     @ (if nullable then ''?'' else [])"
| "typename_plain st nullable Timestamp void is_property =
     ''sys.DateTime'' @ (if nullable then ''?'' else [])"
| "typename_plain st nullable Void void is_property =
     (case void of None \<Rightarrow> ''void'' | Some v \<Rightarrow> (if v = [] then ''void'' else v))"
| "typename st (Plain b) void is_property = typename_plain st False b void is_property"
| "typename st (Nullable b) void is_property = typename_plain st True b void is_property"

text \<open>\<open>_process_literal\<close>, \<open>_type_literal_suffix\<close>, \<open>_could_be_null\<close>, \<open>_verbatim_string\<close>.\<close>

definition process_literal :: "literal \<Rightarrow> string" where
  "process_literal l =
     (case l of LitBool b \<Rightarrow> (if b then ''true'' else ''false'')
      | LitText t \<Rightarrow> t
      | TagRef u t \<Rightarrow> ''TagRef('' @ u @ '', '' @ t @ '')'')"

definition type_literal_suffix :: "data_type \<Rightarrow> string" where
  "type_literal_suffix dt =
     (case dt of
        Plain (Numeric k _ _) \<Rightarrow>
          (case k of Int32 \<Rightarrow> [] | UInt32 \<Rightarrow> ''U'' | Int64 \<Rightarrow> ''L''
           | UInt64 \<Rightarrow> ''UL'' | Float32 \<Rightarrow> ''F'' | Float64 \<Rightarrow> ''D'')
      | _ \<Rightarrow> [])"

definition could_be_null :: "data_type \<Rightarrow> bool" where
  "could_be_null dt = (is_composite_type dt \<or> is_string_type dt \<or> is_list_type dt)"

definition verbatim_string :: "string \<Rightarrow> string" where
  \<open>verbatim_string s =
     ''@"'' @ concat (map (\<lambda>c. if c = CHR 0x22 then [CHR 0x22, CHR 0x22] else [c]) s) @ ''"''\<close>

subsection \<open>The emitted C\#\<close>

text \<open>
  Each constructor stands for one text template of the generator; the template is given
  beside it and by \<open>render_expr\<close>, \<open>render_cond\<close> and \<open>render_stmt\<close> below. Documentation
  comments are not part of the tree.
\<close>

datatype expr =
    Arg string                          \<comment> \<open>\<open>{0}\<close>: an argument or local variable\<close>
  | Literal string                      \<comment> \<open>\<open>{0}\<close>: literal text\<close>
  | StringLit string                    \<comment> \<open>\<open>"{0}"\<close>\<close>
  | This string                         \<comment> \<open>\<open>this.{0}\<close>\<close>
  | ThisValue string                    \<comment> \<open>\<open>this.{0}.Value\<close>\<close>
  | ThisObject                          \<comment> \<open>\<open>this\<close>\<close>
  | ThisAs string                       \<comment> \<open>\<open>this.As{0}\<close>\<close>
  | GetFieldCall string string string   \<comment> \<open>\<open>obj.{0}<{1}>("{2}")\<close>\<close>
  | GetUnionName                        \<comment> \<open>\<open>decoder.GetUnionName()\<close>\<close>
  | NewList string expr                 \<comment> \<open>\<open>new col.List<{0}>({1})\<close>\<close>
  | NewEmptyList string                 \<comment> \<open>\<open>new col.List<{0}>()\<close>\<close>
  | OrEmptyArray expr string            \<comment> \<open>\<open>{0} ?? new {1}[0]\<close>\<close>
  | Instance string                     \<comment> \<open>\<open>{0}.Instance\<close>\<close>
  | New0 string                         \<comment> \<open>\<open>new {0}()\<close>\<close>
  | New1 string expr                    \<comment> \<open>\<open>new {0}({1})\<close>\<close>
  | DecodeCall string expr              \<comment> \<open>\<open>((enc.IEncodable<{0}>){1}).Decode(decoder)\<close>\<close>

datatype cond =
    IsNull string                       \<comment> \<open>\<open>{0} == null\<close>\<close>
  | Checks "string option" "string list"
      \<comment> \<open>\<open>c1 || c2 ...\<close>, inside \<open>{0} != null && (...)\<close> when a name is given\<close>
  | ThisNotNull string                  \<comment> \<open>\<open>this.{0} != null\<close>\<close>
  | ThisCountPositive string            \<comment> \<open>\<open>this.{0}.Count > 0\<close>\<close>
  | HasField string                     \<comment> \<open>\<open>obj.HasField("{0}")\<close>\<close>
  | ThisIs string                       \<comment> \<open>\<open>this.Is{0}\<close>\<close>

datatype stmt =
    Blank                               \<comment> \<open>\<open>self.emit()\<close>\<close>
  | Assign expr expr                    \<comment> \<open>\<open>{0} = {1};\<close>\<close>
  | Var string expr                     \<comment> \<open>\<open>var {0} = {1};\<close>\<close>
  | If cond "stmt list"                 \<comment> \<open>\<open>with self.if_(...)\<close>\<close>
  | ElseIf cond "stmt list"             \<comment> \<open>\<open>with self.else_if(...)\<close>\<close>
  | Else "stmt list"                    \<comment> \<open>\<open>with self.else_()\<close>\<close>
  | Using string "stmt list"            \<comment> \<open>\<open>with self.using(...)\<close>\<close>
  | Throw string "string option"        \<comment> \<open>\<open>throw new sys.{0}();\<close> or \<open>throw new sys.{0}("{1}");\<close>\<close>
  | AddField string "string option" string expr
      \<comment> \<open>\<open>obj.{0}<{1}>("{2}", {3});\<close>, or \<open>obj.{0}("{2}", {3});\<close> without a type argument\<close>
  | Encode string expr                  \<comment> \<open>\<open>((enc.IEncodable<{0}>){1}).Encode(encoder);\<close>\<close>
  | Return expr                         \<comment> \<open>\<open>return {0};\<close>\<close>
  | Switch expr "stmt list"             \<comment> \<open>\<open>with self.switch(...)\<close>\<close>
  | Case "string option" "stmt list" bool
      \<comment> \<open>\<open>with self.case(constant, needs_break)\<close>; no constant is \<open>default:\<close>\<close>

definition quoted :: "string \<Rightarrow> string" where
  "quoted s = [CHR 0x22] @ s @ [CHR 0x22]"

fun render_expr :: "expr \<Rightarrow> string" where
  "render_expr (Arg a) = a"
| "render_expr (Literal t) = t"
| "render_expr (StringLit t) = quoted t"
| "render_expr (This p) = ''this.'' @ p"
| "render_expr (ThisValue p) = ''this.'' @ p @ ''.Value''"
| "render_expr ThisObject = ''this''"
| "render_expr (ThisAs x) = ''this.As'' @ x"
| "render_expr (GetFieldCall m t n) = ''obj.'' @ m @ ''<'' @ t @ ''>('' @ quoted n @ '')''"
| "render_expr GetUnionName = ''decoder.GetUnionName()''"
| "render_expr (NewList t e) = ''new col.List<'' @ t @ ''>('' @ render_expr e @ '')''"
| "render_expr (NewEmptyList t) = ''new col.List<'' @ t @ ''>()''"
| "render_expr (OrEmptyArray e t) = render_expr e @ '' ?? new '' @ t @ ''[0]''"
| "render_expr (Instance t) = t @ ''.Instance''"
| "render_expr (New0 t) = ''new '' @ t @ ''()''"
| "render_expr (New1 t e) = ''new '' @ t @ ''('' @ render_expr e @ '')''"
| "render_expr (DecodeCall t e) =
     ''((enc.IEncodable<'' @ t @ ''>)'' @ render_expr e @ '').Decode(decoder)''"

fun render_cond :: "cond \<Rightarrow> string" where
  "render_cond (IsNull a) = a @ '' == null''"
| "render_cond (Checks None cs) = join '' || '' cs"
| "render_cond (Checks (Some a) cs) = a @ '' != null && ('' @ join '' || '' cs @ '')''"
| "render_cond (ThisNotNull p) = ''this.'' @ p @ '' != null''"
| "render_cond (ThisCountPositive p) = ''this.'' @ p @ ''.Count > 0''"
| "render_cond (HasField n) = ''obj.HasField('' @ quoted n @ '')''"
| "render_cond (ThisIs x) = ''this.Is'' @ x"

definition indent_lines :: "string list \<Rightarrow> string list" where
  "indent_lines ls = map (\<lambda>l. if l = [] then l else ''    '' @ l) ls"

text \<open>An Allman-style block: the line before it, and the body between braces.\<close>

definition cs_block :: "string \<Rightarrow> string list \<Rightarrow> string list" where
  "cs_block before body = [before, ''{''] @ indent_lines body @ [''}'']"

fun render_stmt :: "stmt \<Rightarrow> string list"
  and render_stmts :: "stmt list \<Rightarrow> string list" where
  "render_stmt Blank = [[]]"
| "render_stmt (Assign l r) = [render_expr l @ '' = '' @ render_expr r @ '';'']"
| "render_stmt (Var x e) = [''var '' @ x @ '' = '' @ render_expr e @ '';'']"
| "render_stmt (If c body) = cs_block (''if ('' @ render_cond c @ '')'') (render_stmts body)"
| "render_stmt (ElseIf c body) =
     cs_block (''else if ('' @ render_cond c @ '')'') (render_stmts body)"
| "render_stmt (Else body) = cs_block ''else'' (render_stmts body)"
| "render_stmt (Using d body) = cs_block (''using ('' @ d @ '')'') (render_stmts body)"
| "render_stmt (Throw x None) = [''throw new sys.'' @ x @ ''();'']"
| "render_stmt (Throw x (Some a)) = [''throw new sys.'' @ x @ ''('' @ quoted a @ '');'']"
| "render_stmt (AddField m None n e) =
     [''obj.'' @ m @ ''('' @ quoted n @ '', '' @ render_expr e @ '');'']"
| "render_stmt (AddField m (Some t) n e) =
     [''obj.'' @ m @ ''<'' @ t @ ''>('' @ quoted n @ '', '' @ render_expr e @ '');'']"
| "render_stmt (Encode t e) =
     [''((enc.IEncodable<'' @ t @ ''>)'' @ render_expr e @ '').Encode(encoder);'']"
| "render_stmt (Return e) = [''return '' @ render_expr e @ '';'']"
| "render_stmt (Switch e body) =
     [''switch ('' @ render_expr e @ '')'', ''{''] @ render_stmts body @ [''}'']"
| "render_stmt (Case None body b) =
     ''default:'' # indent_lines (render_stmts body @ (if b then [''break;''] else []))"
| "render_stmt (Case (Some k) body b) =
     (''case '' @ k @ '':'') # indent_lines (render_stmts body @ (if b then [''break;''] else []))"
| "render_stmts [] = []"
| "render_stmts (s # ss) = render_stmt s @ render_stmts ss"

subsection \<open>Constraints and defaults\<close>

text \<open>\<open>_process_union_default\<close> and \<open>_process_composite_default\<close>.\<close>

definition process_union_default :: "field \<Rightarrow> bool \<Rightarrow> error + stmt list" where
  "process_union_default f include_null_check =
     (case field_default f of
        TagRef union_n default_tag \<Rightarrow>
          (if include_null_check
           then bind_err (arg_name (field_name f)) (\<lambda>a.
                  Inr [If (IsNull a)
                         [Assign (Arg a)
                            (Instance (public_name union_n @ ''.'' @ public_name default_tag))]])
           else Inr [Assign (This (public_name (field_name f)))
                       (Instance (public_name union_n @ ''.'' @ public_name default_tag))])
      | _ \<Rightarrow> Inl AssertionError)"

definition process_composite_default :: "field \<Rightarrow> bool \<Rightarrow> error + stmt list" where
  "process_composite_default f include_null_check =
     (if is_struct_type (field_data_type f) then Inl NotImplementedError
      else if is_union_type (field_data_type f) then process_union_default f include_null_check
      else Inl AssertionError)"

text \<open>
  \<open>_check_constraints(name, data_type, has_null_check)\<close>. \<open>constraint_checks\<close> is the list
  \<open>checks\<close> and \<open>list_copy\<close> the statements emitted while it is collected.
\<close>

definition bound_check :: "string \<Rightarrow> string \<Rightarrow> string option \<Rightarrow> string \<Rightarrow> string list" where
  "bound_check subject rel bound suffix =
     (case bound of None \<Rightarrow> [] | Some b \<Rightarrow> [subject @ rel @ b @ suffix])"

definition constraint_checks :: "string \<Rightarrow> data_type \<Rightarrow> string list" where
  "constraint_checks name data_type =
     (case data_type of
        Plain (Numeric k mn mx) \<Rightarrow>
          bound_check name '' < '' mn (type_literal_suffix data_type)
          @ bound_check name '' > '' mx (type_literal_suffix data_type)
      | Plain (String mn mx pat) \<Rightarrow>
          bound_check (name @ ''.Length'') '' < '' mn []
          @ bound_check (name @ ''.Length'') '' > '' mx []
          @ (case pat of None \<Rightarrow> []
             | Some p \<Rightarrow> [''!re.Regex.IsMatch('' @ name @ '', '' @ verbatim_string p @ '')''])
      | Plain (List e mn mx) \<Rightarrow>
          bound_check (name @ ''List.Count'') '' < '' mn []
          @ bound_check (name @ ''List.Count'') '' > '' mx []
      | _ \<Rightarrow> [])"

definition list_copy :: "gen_state \<Rightarrow> string \<Rightarrow> data_type \<Rightarrow> stmt list" where
  "list_copy st name data_type =
     (case data_type of
        Plain (List e mn mx) \<Rightarrow>
          [Var (name @ ''List'')
             (NewList (typename st e None False)
                (OrEmptyArray (Arg name) (typename st e None False))),
           Blank]
      | _ \<Rightarrow> [])"

definition check_constraints :: "gen_state \<Rightarrow> string \<Rightarrow> data_type \<Rightarrow> bool \<Rightarrow> stmt list" where
  "check_constraints st name dt has_null_check =
     (let nullable = is_nullable_type dt;
          data_type = unwrap_nullable dt;
          checks = constraint_checks name data_type;
          guarded = (\<not> nullable \<and> could_be_null data_type)
      in list_copy st name data_type
         @ (if guarded \<and> \<not> has_null_check
            then [If (IsNull name) [Throw ''ArgumentNullException'' (Some name)]] else [])
         @ (if checks \<noteq> []
            then [(if guarded then ElseIf else If)
                    (Checks (if nullable then Some name else None) checks)
                    [Throw ''ArgumentOutOfRangeException'' (Some name)]]
            else [])
         @ (if guarded \<or> checks \<noteq> [] then [Blank] else []))"

subsection \<open>Field encoders and decoders\<close>

definition emit_encoder :: "gen_state \<Rightarrow> field \<Rightarrow> stmt list" where
  "emit_encoder st f =
     (let field_public_name = public_name (field_name f);
          nullable = is_nullable_type (field_data_type f);
          data_type = unwrap_nullable (field_data_type f);
          field_type = typename st data_type None False;
          element_type = typename st (list_element_type data_type) None False;
          add =
            (if is_composite_type data_type
             then AddField ''AddFieldObject'' (Some field_type) (field_name f)
                    (This field_public_name)
             else if is_list_type data_type
             then (if is_composite_type (list_element_type data_type)
                   then AddField ''AddFieldObjectList'' (Some element_type) (field_name f)
                          (This field_public_name)
                   else AddField ''AddFieldList'' (Some element_type) (field_name f)
                          (This field_public_name))
             else if nullable \<and> \<not> is_string_type data_type
             then AddField ''AddField'' (Some field_type) (field_name f)
                    (ThisValue field_public_name)
             else AddField ''AddField'' (Some field_type) (field_name f)
                    (This field_public_name))
      in if nullable
         then (if is_list_type data_type
               then [If (ThisCountPositive field_public_name) [add]]
               else [If (ThisNotNull field_public_name) [add]])
         else [add])"

text \<open>\<open>_get_decoder_method\<close> reads only the name and the type of the (struct or union) field.\<close>

definition get_decoder_method :: "gen_state \<Rightarrow> string \<Rightarrow> data_type \<Rightarrow> expr" where
  "get_decoder_method st name dt =
     (let data_type = unwrap_nullable dt
      in if is_composite_type data_type
         then GetFieldCall ''GetFieldObject'' (typename st data_type None False) name
         else if is_list_type data_type
         then NewList (typename st (list_element_type data_type) None False)
                (GetFieldCall
                   (if is_composite_type (list_element_type data_type)
                    then ''GetFieldObjectList'' else ''GetFieldList'')
                   (typename st (list_element_type data_type) None False) name)
         else GetFieldCall ''GetField'' (typename st data_type None False) name)"

definition emit_decoder :: "gen_state \<Rightarrow> field \<Rightarrow> stmt list" where
  "emit_decoder st f =
     (let field_public_name = public_name (field_name f);
          nullable = is_nullable_type (field_data_type f);
          read = Assign (This field_public_name)
                   (get_decoder_method st (field_name f) (field_data_type f))
      in if nullable \<or> field_has_default f
         then (let data_type = (if nullable then unwrap_nullable (field_data_type f)
                                else field_data_type f)
               in [If (HasField (field_name f)) [read]]
                  @ (if is_list_type data_type
                     then [Else [Assign (This field_public_name)
                                   (NewEmptyList
                                      (typename st (list_element_type data_type) None False))]]
                     else []))
         else [read])"

subsection \<open>Struct constructors\<close>

text \<open>
  \<open>ConstructorArg\<close> without its documentation string, and a constructor as it is emitted:
  the text before the parameter list (\<open>before\<close> of \<open>generate_multiline_list\<close> or of
  \<open>cs_block\<close>), the parameters, the arguments of \<open>: base(...)\<close> if any, and the body.
\<close>

record constructor_arg =
  ca_type :: string
  ca_name :: string
  ca_arg :: string

record ctor =
  ctor_before :: string
  ctor_params :: "string list"
  ctor_base :: "string list option"
  ctor_body :: "stmt list"

definition make_constructor_arg :: "gen_state \<Rightarrow> field \<Rightarrow> error + constructor_arg" where
  "make_constructor_arg st f =
     (let fieldtype = typename st (field_data_type f) None False
      in bind_err (arg_name (field_name f)) (\<lambda>a.
           Inr \<lparr>ca_type = fieldtype, ca_name = a,
                ca_arg =
                  (if field_has_default f
                   then (if is_composite_type (field_data_type f)
                         then fieldtype @ '' '' @ a @ '' = null''
                         else fieldtype @ '' '' @ a @ '' = '' @ process_literal (field_default f))
                   else if is_nullable_type (field_data_type f)
                   then fieldtype @ '' '' @ a @ '' = null''
                   else fieldtype @ '' '' @ a)\<rparr>))"

definition make_struct_constructor_args :: "gen_state \<Rightarrow> struct \<Rightarrow> error + constructor_arg list" where
  "make_struct_constructor_args st s = map_err (make_constructor_arg st) (all_fields s)"

text \<open>
  The first loop of \<open>_generate_struct_init_ctor\<close> for one field (default of a composite
  field, then \<open>_check_constraints\<close>), and the assignment of its second loop.
\<close>

definition init_ctor_checks :: "gen_state \<Rightarrow> field \<Rightarrow> error + stmt list" where
  "init_ctor_checks st f =
     (if field_has_default f \<and> is_composite_type (field_data_type f)
      then bind_err (process_composite_default f True) (\<lambda>d.
           bind_err (arg_name (field_name f)) (\<lambda>a.
             Inr (d @ check_constraints st a (field_data_type f) True)))
      else bind_err (arg_name (field_name f)) (\<lambda>a.
             Inr (check_constraints st a (field_data_type f) False)))"

definition init_ctor_assign :: "field \<Rightarrow> error + stmt" where
  "init_ctor_assign f =
     bind_err (arg_name (field_name f)) (\<lambda>a.
       if is_list_type (field_data_type f)
          \<or> (is_nullable_type (field_data_type f)
              \<and> is_list_type (unwrap_nullable (field_data_type f)))
       then Inr (Assign (This (public_name (field_name f))) (Arg (a @ ''List'')))
       else Inr (Assign (This (public_name (field_name f))) (Arg a)))"

text \<open>The fields a constructor handles itself: those not implemented by the parent.\<close>

definition own_fields :: "struct \<Rightarrow> string set \<Rightarrow> field list" where
  "own_fields s parent_type_fields =
     filter (\<lambda>f. field_name f \<notin> parent_type_fields) (all_fields s)"

definition generate_struct_init_ctor ::
  "gen_state \<Rightarrow> struct \<Rightarrow> string \<Rightarrow> struct option \<Rightarrow> string set \<Rightarrow> error + ctor" where
  "generate_struct_init_ctor st s class_name parent parent_type_fields =
     bind_err (make_struct_constructor_args st s) (\<lambda>ctor_args.
     bind_err (case parent of None \<Rightarrow> Inr []
               | Some p \<Rightarrow> make_struct_constructor_args st p) (\<lambda>super_args.
     bind_err (map_err (init_ctor_checks st) (own_fields s parent_type_fields)) (\<lambda>checks.
     bind_err (map_err init_ctor_assign (own_fields s parent_type_fields)) (\<lambda>assigns.
       Inr \<lparr>ctor_before =
              (if has_enumerated_subtypes s \<and> ctor_args \<noteq> [] then ''protected'' else ''public'')
              @ '' '' @ class_name,
            ctor_params = map ca_arg ctor_args,
            ctor_base = (if super_args \<noteq> [] then Some (map ca_name super_args) else None),
            ctor_body = concat checks @ assigns\<rparr>))))"

text \<open>\<open>_generate_struct_default_ctor\<close>: the statements for one field, and the constructor.\<close>

definition default_ctor_init :: "field \<Rightarrow> error + stmt list" where
  "default_ctor_init f =
     (if field_has_default f
      then (if is_composite_type (field_data_type f)
            then process_composite_default f False
            else Inr [Assign (This (public_name (field_name f)))
                        (Literal (process_literal (field_default f)))])
      else Inr [])"

definition generate_struct_default_ctor ::
  "struct \<Rightarrow> string \<Rightarrow> string set \<Rightarrow> error + ctor" where
  "generate_struct_default_ctor s class_name parent_type_fields =
     (if all_fields s = [] then Inl AssertionError
      else bind_err (map_err default_ctor_init (own_fields s parent_type_fields)) (\<lambda>inits.
             Inr \<lparr>ctor_before = ''public '' @ class_name @ ''()'',
                  ctor_params = [],
                  ctor_base = None,
                  ctor_body = concat inits\<rparr>))"

subsection \<open>Struct encode and decode\<close>

definition get_struct_tag :: "struct \<Rightarrow> string option" where
  "get_struct_tag s =
     (case parent_type s of
        None \<Rightarrow> None
      | Some p \<Rightarrow>
          (if has_enumerated_subtypes p
           then map_option fst (find (\<lambda>sub. snd sub = struct_ref s) (enumerated_subtypes p))
           else None))"

definition ENCODER_OBJECT :: string where
  "ENCODER_OBJECT = ''var obj = encoder.AddObject()''"

definition DECODER_OBJECT :: string where
  "DECODER_OBJECT = ''var obj = decoder.GetObject()''"

definition INVALID_OPERATION :: stmt where
  "INVALID_OPERATION = Throw ''InvalidOperationException'' None"

text \<open>The \<open>if\<close>/\<open>else if\<close> chain over the enumerated subtypes, by index.\<close>

fun subtype_encode_branches :: "gen_state \<Rightarrow> nat \<Rightarrow> (string \<times> data_type) list \<Rightarrow> stmt list" where
  "subtype_encode_branches st index [] = []"
| "subtype_encode_branches st index (sub # subs) =
     (if index = 0 then If else ElseIf) (ThisIs (public_name (fst sub)))
        [Encode (typename st (snd sub) None False) (ThisAs (public_name (fst sub)))]
     # subtype_encode_branches st (Suc index) subs"

definition struct_encode_body :: "gen_state \<Rightarrow> struct \<Rightarrow> string set \<Rightarrow> error + stmt list" where
  "struct_encode_body st s parent_type_fields =
     (if has_enumerated_subtypes s
      then Inr (subtype_encode_branches st 0 (enumerated_subtypes s)
                @ [Else (if \<not> is_catch_all s then [INVALID_OPERATION]
                         else [Using ENCODER_OBJECT
                                 (AddField ''AddField'' (Some ''string'') ''.tag''
                                    (StringLit (case get_struct_tag s of None \<Rightarrow> []
                                                | Some t \<Rightarrow> t))
                                  # concat (map (emit_encoder st) (all_fields s)))])])
      else if (case parent_type s of None \<Rightarrow> False | Some p \<Rightarrow> has_enumerated_subtypes p)
      then (case get_struct_tag s of
              None \<Rightarrow> Inl AssertionError
            | Some t \<Rightarrow>
                Inr [Using ENCODER_OBJECT
                       (AddField ''AddField'' (Some ''string'') ''.tag'' (StringLit t)
                        # concat (map (emit_encoder st) (all_fields s)))])
      else Inr [Using ENCODER_OBJECT
                  (concat (map (emit_encoder st) (own_fields s parent_type_fields)))])"

definition subtype_decode_case :: "gen_state \<Rightarrow> string \<times> data_type \<Rightarrow> error + stmt" where
  "subtype_decode_case st sub =
     bind_err (arg_name (fst sub)) (\<lambda>subtype_arg_name.
       Inr (Case (Some (quoted (fst sub)))
              [Var subtype_arg_name (New0 (typename st (snd sub) None False)),
               Return (DecodeCall (typename st (snd sub) None False) (Arg subtype_arg_name))]
              False))"

text \<open>Decoding the fields into \<open>this\<close>: the body shared by a plain struct and a catch-all root.\<close>

definition decode_fields :: "gen_state \<Rightarrow> struct \<Rightarrow> stmt list" where
  "decode_fields st s =
     [Using DECODER_OBJECT (concat (map (emit_decoder st) (all_fields s))),
      Blank,
      Return ThisObject]"

definition struct_decode_cases :: "gen_state \<Rightarrow> struct \<Rightarrow> error + stmt list" where
  "struct_decode_cases st s =
     bind_err (map_err (subtype_decode_case st) (enumerated_subtypes s)) (\<lambda>cases.
       Inr (cases @ [if is_catch_all s then Case None (decode_fields st s) False
                     else Case None [INVALID_OPERATION] False]))"

definition struct_decode_body :: "gen_state \<Rightarrow> struct \<Rightarrow> error + stmt list" where
  "struct_decode_body st s =
     (if has_enumerated_subtypes s
      then bind_err (struct_decode_cases st s) (\<lambda>cases.
             Inr [Var ''tag'' (Literal ''string.Empty''),
                  Using DECODER_OBJECT
                    [Assign (Arg ''tag'') (GetFieldCall ''GetField'' ''string'' ''.tag'')],
                  Blank,
                  Switch (Arg ''tag'') cases])
      else Inr (decode_fields st s))"

subsection \<open>The struct class\<close>

record struct_class =
  sc_name :: string
  sc_access :: string
  sc_inherits :: "string list"
  sc_init_ctor :: ctor
  sc_default_ctor :: "ctor option"
  sc_properties :: "string list"
  sc_encode :: "stmt list"
  sc_decode :: "stmt list"

definition generate_struct_properties :: "gen_state \<Rightarrow> struct \<Rightarrow> string set \<Rightarrow> string list" where
  "generate_struct_properties st s parent_type_fields =
     map (\<lambda>f. ''public '' @ typename st (field_data_type f) None True @ '' ''
               @ public_name (field_name f) @ '' { get; ''
               @ (if has_enumerated_subtypes s then ''protected'' else ''private'') @ '' set; }'')
         (own_fields s parent_type_fields)"

text \<open>
  The parent whose class the generated class extends (a parent with enumerated subtypes),
  and the names of the fields that this parent's class implements.
\<close>

definition tagged_parent :: "struct \<Rightarrow> struct option" where
  "tagged_parent s =
     (case parent_type s of None \<Rightarrow> None
      | Some p \<Rightarrow> if has_enumerated_subtypes p then Some p else None)"

definition parent_type_fields :: "struct \<Rightarrow> string set" where
  "parent_type_fields s =
     (case tagged_parent s of None \<Rightarrow> {}
      | Some p \<Rightarrow> set (map field_name (all_fields p)))"

definition generate_struct :: "gen_state \<Rightarrow> struct \<Rightarrow> error + struct_class" where
  "generate_struct st s =
     (let class_name = public_name (struct_name s);
          inherits =
            (case tagged_parent s of None \<Rightarrow> []
             | Some p \<Rightarrow> [public_name (struct_name p)])
            @ [''enc.IEncodable<'' @ class_name @ ''>'']
      in bind_err (generate_struct_init_ctor st s class_name (tagged_parent s)
                     (parent_type_fields s))
           (\<lambda>init.
         bind_err (if all_fields s \<noteq> []
                   then bind_err (generate_struct_default_ctor s class_name
                                    (parent_type_fields s))
                          (\<lambda>c. Inr (Some c))
                   else Inr None) (\<lambda>dflt.
         bind_err (struct_encode_body st s (parent_type_fields s)) (\<lambda>enc.
         bind_err (struct_decode_body st s) (\<lambda>dec.
           Inr \<lparr>sc_name = class_name,
                sc_access = (if has_enumerated_subtypes s then ''public'' else ''public sealed''),
                sc_inherits = inherits,
                sc_init_ctor = init,
                sc_default_ctor = dflt,
                sc_properties = generate_struct_properties st s (parent_type_fields s),
                sc_encode = enc,
                sc_decode = dec\<rparr>)))))"

subsection \<open>Unions\<close>

text \<open>The \<open>if\<close>/\<open>else if\<close>/\<open>else\<close> chain of the union's \<open>Encode\<close>, by index, and \<open>has_catch_all\<close>.\<close>

definition union_encode_branch :: "union \<Rightarrow> nat \<Rightarrow> union_field \<Rightarrow> stmt" where
  "union_encode_branch u index f =
     (if index = 0 then If (ThisIs (public_name (ufield_name f)))
      else if catch_all_field u = Some f then Else
      else ElseIf (ThisIs (public_name (ufield_name f))))
        [Encode (public_name (ufield_name f)) ThisObject]"

fun union_encode_branches :: "union \<Rightarrow> nat \<Rightarrow> union_field list \<Rightarrow> stmt list" where
  "union_encode_branches u index [] = []"
| "union_encode_branches u index (f # fs) =
     union_encode_branch u index f # union_encode_branches u (Suc index) fs"

fun union_has_catch_all :: "union \<Rightarrow> nat \<Rightarrow> union_field list \<Rightarrow> bool" where
  "union_has_catch_all u index [] = False"
| "union_has_catch_all u index (f # fs) =
     ((index \<noteq> 0 \<and> catch_all_field u = Some f) \<or> union_has_catch_all u (Suc index) fs)"

definition union_encode_body :: "union \<Rightarrow> stmt list" where
  "union_encode_body u =
     union_encode_branches u 0 (union_fields u)
     @ (if \<not> union_has_catch_all u 0 (union_fields u) then [Else [INVALID_OPERATION]] else [])"

definition union_decode_case_body :: "gen_state \<Rightarrow> union_field \<Rightarrow> error + stmt list" where
  "union_decode_case_body st f =
     (let public_field_name = public_name (ufield_name f)
      in if is_void_type (ufield_data_type f)
         then Inr [Return (Instance public_field_name)]
         else if is_composite_type (ufield_data_type f)
         then bind_err (arg_name (ufield_name f)) (\<lambda>a.
                Inr [Var a (New0 (typename st (ufield_data_type f) None False)),
                     Return (New1 public_field_name
                               (DecodeCall (typename st (ufield_data_type f) None False)
                                  (Arg a)))])
         else Inr [Using DECODER_OBJECT
                     [Return (New1 public_field_name
                                (get_decoder_method st (ufield_name f)
                                   (ufield_data_type f)))]])"

definition union_decode_case :: "gen_state \<Rightarrow> union \<Rightarrow> union_field \<Rightarrow> error + stmt" where
  "union_decode_case st u f =
     bind_err (union_decode_case_body st f) (\<lambda>body.
       Inr (Case (if catch_all_field u = Some f then None else Some (quoted (ufield_name f)))
              body False))"

definition union_decode_cases :: "gen_state \<Rightarrow> union \<Rightarrow> error + stmt list" where
  "union_decode_cases st u =
     bind_err (map_err (union_decode_case st u) (union_fields u)) (\<lambda>cases.
       Inr (cases @ (if catch_all_field u = None then [Case None [INVALID_OPERATION] False]
                     else [])))"

definition union_decode_body :: "gen_state \<Rightarrow> union \<Rightarrow> error + stmt list" where
  "union_decode_body st u =
     bind_err (union_decode_cases st u) (\<lambda>cases. Inr [Switch GetUnionName cases])"

text \<open>
  The inner class of a union field: \<open>_generate_union_field_void_type\<close>,
  \<open>_generate_union_field_value_type\<close> and \<open>_generate_union_field_decoder\<close>.
\<close>

record union_field_class =
  ufc_name :: string
  ufc_ctor :: ctor
  ufc_encode :: "stmt list"
  ufc_decode :: "stmt list"

definition union_field_encode :: "union_field \<Rightarrow> stmt list" where
  "union_field_encode f =
     [Using ENCODER_OBJECT
        (AddField ''AddField'' None ''.tag'' (StringLit (ufield_name f))
         # (if is_void_type (ufield_data_type f) then []
            else [AddField ''AddField'' None (ufield_name f) (This ''Value'')]))]"

definition union_field_decoder :: "stmt list" where
  "union_field_decoder =
     [Throw ''InvalidOperationException'' (Some ''Decoding happens through the base class'')]"

definition generate_union_field_type :: "gen_state \<Rightarrow> union_field \<Rightarrow> union_field_class" where
  "generate_union_field_type st f =
     (let field_type = public_name (ufield_name f)
      in \<lparr>ufc_name = field_type,
          ufc_ctor =
            (if is_void_type (ufield_data_type f)
             then \<lparr>ctor_before = ''private '' @ field_type @ ''()'', ctor_params = [],
                   ctor_base = None, ctor_body = []\<rparr>
             else \<lparr>ctor_before = ''public '' @ field_type,
                   ctor_params = [typename st (ufield_data_type f) None False @ '' value''],
                   ctor_base = None,
                   ctor_body =
                     [Assign (This ''Value'')
                        (if is_list_type (ufield_data_type f)
                         then NewList (typename st (list_element_type (ufield_data_type f))
                                         None False) (Arg ''value'')
                         else Arg ''value'')]\<rparr>),
          ufc_encode = union_field_encode f,
          ufc_decode = union_field_decoder\<rparr>)"

record union_class =
  uc_name :: string
  uc_encode :: "stmt list"
  uc_decode :: "stmt list"
  uc_field_types :: "union_field_class list"

definition union_members :: "union \<Rightarrow> gen_state \<Rightarrow> error + union_class" where
  "union_members u st =
     bind_err (union_decode_body st u) (\<lambda>dec.
       Inr \<lparr>uc_name = public_name (union_name u),
            uc_encode = union_encode_body u,
            uc_decode = dec,
            uc_field_types = map (generate_union_field_type st) (union_fields u)\<rparr>)"

definition generate_union :: "gen_state \<Rightarrow> union \<Rightarrow> (error + union_class) \<times> gen_state" where
  "generate_union st u =
     with_local_names (map (\<lambda>f. public_name (ufield_name f)) (union_fields u))
       (union_members u) st"

subsection \<open>Meaning of the emitted dispatch statements\<close>

text \<open>
  A C\# \<open>switch\<close> on a string runs the section whose \<open>case\<close> constant is the value, else
  the \<open>default\<close> section, else nothing. \<open>select_labelled\<close> finds the section with a
  given label; the constants of the generated sections are quoted tag strings.
\<close>

fun select_labelled :: "string option \<Rightarrow> stmt list \<Rightarrow> stmt list option" where
  "select_labelled l [] = None"
| "select_labelled l (Case k body b # rest) =
     (if k = l then Some body else select_labelled l rest)"
| "select_labelled l (other # rest) = select_labelled l rest"

definition select_case :: "string \<Rightarrow> stmt list \<Rightarrow> stmt list option" where
  "select_case tag sections =
     (case select_labelled (Some (quoted tag)) sections of
        Some body \<Rightarrow> Some body
      | None \<Rightarrow> select_labelled None sections)"

subsection \<open>Running the emitted statements\<close>

text \<open>
  Values of the generated program: \<open>null\<close>, a list, and opaque values for scalars, strings
  and nested objects. \<open>Self\<close> is the object \<open>this\<close>: seen through the class being generated
  (\<open>None\<close>), or through the \<open>As\<close> accessor of a subtype.
\<close>

datatype val =
    Null
  | Prim string
  | ListVal "val list"
  | Singleton string
  | Wrapped string val
  | Fresh string
  | Self "string option"

datatype exn =
    Thrown string     \<comment> \<open>a C\# exception, by class name\<close>
  | Malformed         \<comment> \<open>not a C\# statement sequence: an \<open>else\<close> without its \<open>if\<close>, an unknown variable\<close>

text \<open>
  Modelled from the spec: the encoder and decoder objects (\<open>Dropbox.Api.Babel\<close>, copied
  from the \<open>common\<close> directory, which is not part of the generator source). A composite
  value on the wire is a map of named entries: \<open>obj.AddField...(name, value)\<close> adds the
  entry \<open>name\<close>, \<open>obj.HasField(name)\<close> tells whether the entry is there and
  \<open>obj.GetField...(name)\<close> gives its value. What an accessor does for an entry that is
  not there is left open (\<open>on_absent\<close>), as are the encoders and decoders of other
  generated classes (\<open>encode_of\<close>, \<open>decode_of\<close>), the truth of a range or format check
  (\<open>check_holds\<close>) and the dynamic type of \<open>this\<close> (\<open>this_is\<close>).
\<close>

record env =
  this_is :: "string \<Rightarrow> bool"
  check_holds :: "(string \<rightharpoonup> val) \<Rightarrow> string \<Rightarrow> bool"
  wire :: "(string \<times> val) list"
  on_absent :: "string \<Rightarrow> exn + val"
  encode_of :: "string \<Rightarrow> (string \<times> val) list"
  decode_of :: "string \<Rightarrow> exn + val"

record heap =
  props :: "string \<rightharpoonup> val"
  locals :: "string \<rightharpoonup> val"
  written :: "(string \<times> val) list"
  returned :: "val option"

definition get_entry :: "env \<Rightarrow> string \<Rightarrow> exn + val" where
  "get_entry e n = (case map_of (wire e) n of Some v \<Rightarrow> Inr v | None \<Rightarrow> on_absent e n)"

fun eval_expr :: "env \<Rightarrow> heap \<Rightarrow> expr \<Rightarrow> exn + val" where
  "eval_expr e h (Arg a) = (case locals h a of None \<Rightarrow> Inl Malformed | Some v \<Rightarrow> Inr v)"
| "eval_expr e h (Literal t) = Inr (if t = ''null'' then Null else Prim t)"
| "eval_expr e h (StringLit t) = Inr (Prim t)"
| "eval_expr e h (This p) = Inr (case props h p of None \<Rightarrow> Null | Some v \<Rightarrow> v)"
| "eval_expr e h (ThisValue p) =
     (case props h p of
        None \<Rightarrow> Inl (Thrown ''InvalidOperationException'')
      | Some Null \<Rightarrow> Inl (Thrown ''InvalidOperationException'')
      | Some v \<Rightarrow> Inr v)"
| "eval_expr e h ThisObject = Inr (Self None)"
| "eval_expr e h (ThisAs x) = Inr (if this_is e x then Self (Some x) else Null)"
| "eval_expr e h (GetFieldCall m t n) = get_entry e n"
| "eval_expr e h GetUnionName = get_entry e ''.tag''"
| "eval_expr e h (NewList t a) =
     (case eval_expr e h a of
        Inl x \<Rightarrow> Inl x
      | Inr (ListVal xs) \<Rightarrow> Inr (ListVal xs)
      | Inr Null \<Rightarrow> Inl (Thrown ''ArgumentNullException'')
      | Inr v \<Rightarrow> Inl Malformed)"
| "eval_expr e h (NewEmptyList t) = Inr (ListVal [])"
| "eval_expr e h (OrEmptyArray a t) =
     (case eval_expr e h a of
        Inl x \<Rightarrow> Inl x
      | Inr Null \<Rightarrow> Inr (ListVal [])
      | Inr v \<Rightarrow> Inr v)"
| "eval_expr e h (Instance t) = Inr (Singleton t)"
| "eval_expr e h (New0 t) = Inr (Fresh t)"
| "eval_expr e h (New1 t a) =
     (case eval_expr e h a of Inl x \<Rightarrow> Inl x | Inr v \<Rightarrow> Inr (Wrapped t v))"
| "eval_expr e h (DecodeCall t a) = decode_of e t"

fun eval_cond :: "env \<Rightarrow> heap \<Rightarrow> cond \<Rightarrow> exn + bool" where
  "eval_cond e h (IsNull a) =
     (case locals h a of None \<Rightarrow> Inl Malformed | Some v \<Rightarrow> Inr (v = Null))"
| "eval_cond e h (Checks None cs) = Inr (list_ex (check_holds e (locals h)) cs)"
| "eval_cond e h (Checks (Some a) cs) =
     (case locals h a of
        None \<Rightarrow> Inl Malformed
      | Some v \<Rightarrow> Inr (v \<noteq> Null \<and> list_ex (check_holds e (locals h)) cs))"
| "eval_cond e h (ThisNotNull p) =
     Inr (case props h p of None \<Rightarrow> False | Some v \<Rightarrow> v \<noteq> Null)"
| "eval_cond e h (ThisCountPositive p) =
     (case props h p of
        Some (ListVal xs) \<Rightarrow> Inr (xs \<noteq> [])
      | _ \<Rightarrow> Inl (Thrown ''NullReferenceException''))"
| "eval_cond e h (HasField n) = Inr (map_of (wire e) n \<noteq> None)"
| "eval_cond e h (ThisIs x) = Inr (this_is e x)"

text \<open>
  The state of the \<open>if\<close> chain that the next statement may continue: none, one whose branch
  has been taken, or one with no branch taken yet.
\<close>

datatype chain = NoChain | Taken | NotTaken

lemma select_labelled_size:
  "select_labelled l ss = Some body \<Longrightarrow> size_list size body < Suc (size_list size ss)"
proof (induction ss)
  case Nil
  then show ?case by simp
next
  case (Cons s ss)
  then show ?case by (cases s) (auto split: if_splits)
qed

lemma select_case_size:
  "select_case tag ss = Some body \<Longrightarrow> size_list size body < Suc (size_list size ss)"
  by (auto simp: select_case_def split: option.splits dest: select_labelled_size)

function (sequential) exec :: "env \<Rightarrow> chain \<Rightarrow> stmt list \<Rightarrow> heap \<Rightarrow> exn + heap" where
  "exec e ch [] h = Inr h"
| "exec e ch (Blank # rest) h = exec e NoChain rest h"
| "exec e ch (Assign l r # rest) h =
     (case eval_expr e h r of
        Inl x \<Rightarrow> Inl x
      | Inr v \<Rightarrow>
          (case l of
             This p \<Rightarrow> exec e NoChain rest (h\<lparr>props := (props h)(p \<mapsto> v)\<rparr>)
           | Arg a \<Rightarrow> exec e NoChain rest (h\<lparr>locals := (locals h)(a \<mapsto> v)\<rparr>)
           | _ \<Rightarrow> Inl Malformed))"
| "exec e ch (Var x r # rest) h =
     (case eval_expr e h r of
        Inl x \<Rightarrow> Inl x
      | Inr v \<Rightarrow> exec e NoChain rest (h\<lparr>locals := (locals h)(x \<mapsto> v)\<rparr>))"
| "exec e ch (If c body # rest) h =
     (case eval_cond e h c of
        Inl x \<Rightarrow> Inl x
      | Inr True \<Rightarrow>
          (case exec e NoChain body h of
             Inl x \<Rightarrow> Inl x
           | Inr h' \<Rightarrow> if returned h' \<noteq> None then Inr h' else exec e Taken rest h')
      | Inr False \<Rightarrow> exec e NotTaken rest h)"
| "exec e ch (ElseIf c body # rest) h =
     (case ch of
        NoChain \<Rightarrow> Inl Malformed
      | Taken \<Rightarrow> exec e Taken rest h
      | NotTaken \<Rightarrow>
          (case eval_cond e h c of
             Inl x \<Rightarrow> Inl x
           | Inr True \<Rightarrow>
               (case exec e NoChain body h of
                  Inl x \<Rightarrow> Inl x
                | Inr h' \<Rightarrow> if returned h' \<noteq> None then Inr h' else exec e Taken rest h')
           | Inr False \<Rightarrow> exec e NotTaken rest h))"
| "exec e ch (Else body # rest) h =
     (case ch of
        NoChain \<Rightarrow> Inl Malformed
      | Taken \<Rightarrow> exec e NoChain rest h
      | NotTaken \<Rightarrow>
          (case exec e NoChain body h of
             Inl x \<Rightarrow> Inl x
           | Inr h' \<Rightarrow> if returned h' \<noteq> None then Inr h' else exec e NoChain rest h'))"
| "exec e ch (Using d body # rest) h =
     (case exec e NoChain body h of
        Inl x \<Rightarrow> Inl x
      | Inr h' \<Rightarrow> if returned h' \<noteq> None then Inr h' else exec e NoChain rest h')"
| "exec e ch (Throw x a # rest) h = Inl (Thrown x)"
| "exec e ch (AddField m t n r # rest) h =
     (case eval_expr e h r of
        Inl x \<Rightarrow> Inl x
      | Inr v \<Rightarrow> exec e NoChain rest (h\<lparr>written := written h @ [(n, v)]\<rparr>))"
| "exec e ch (Encode t r # rest) h =
     (case eval_expr e h r of
        Inl x \<Rightarrow> Inl x
      | Inr Null \<Rightarrow> Inl (Thrown ''NullReferenceException'')
      | Inr (Self None) \<Rightarrow>
          (if this_is e t then exec e NoChain rest (h\<lparr>written := written h @ encode_of e t\<rparr>)
           else Inl (Thrown ''InvalidCastException''))
      | Inr (Self (Some x)) \<Rightarrow>
          exec e NoChain rest (h\<lparr>written := written h @ encode_of e t\<rparr>)
      | Inr v \<Rightarrow> Inl Malformed)"
| "exec e ch (Return r # rest) h =
     (case eval_expr e h r of
        Inl x \<Rightarrow> Inl x
      | Inr v \<Rightarrow> Inr (h\<lparr>returned := Some v\<rparr>))"
| "exec e ch (Switch r sections # rest) h =
     (case eval_expr e h r of
        Inl x \<Rightarrow> Inl x
      | Inr (Prim tag) \<Rightarrow>
          (case select_case tag sections of
             None \<Rightarrow> exec e NoChain rest h
           | Some body \<Rightarrow>
               (case exec e NoChain body h of
                  Inl x \<Rightarrow> Inl x
                | Inr h' \<Rightarrow> if returned h' \<noteq> None then Inr h' else exec e NoChain rest h'))
      | Inr v \<Rightarrow> Inl Malformed)"
| "exec e ch (Case k body b # rest) h = Inl Malformed"
  by pat_completeness auto
termination
  by (relation "measure (\<lambda>(e, ch, ss, h). size_list size ss)")
     (auto dest: select_case_size)

text \<open>A fresh object, before any constructor body has run, and a run from it.\<close>

definition fresh_heap :: "(string \<rightharpoonup> val) \<Rightarrow> heap" where
  "fresh_heap args = \<lparr>props = Map.empty, locals = args, written = [], returned = None\<rparr>"

definition run :: "env \<Rightarrow> stmt list \<Rightarrow> heap \<Rightarrow> exn + heap" where
  "run e body h = exec e NoChain body h"


subsection \<open>Conditions on the type model\<close>

text \<open>
  The generator takes a validated model. Two conditions the theorems about unions name:
  the public names of the variants are pairwise different, and the catch-all variant, if
  there is one, is declared first or last.
\<close>

definition distinct_variants :: "union \<Rightarrow> bool" where
  "distinct_variants u = distinct (map (\<lambda>f. public_name (ufield_name f)) (union_fields u))"

definition catch_all_placed :: "union \<Rightarrow> bool" where
  "catch_all_placed u =
     (case catch_all_field u of
        None \<Rightarrow> True
      | Some c \<Rightarrow> c \<notin> set (butlast (tl (union_fields u))))"

subsection \<open>Example schemas\<close>

text \<open>
  The scenarios of the specification, in namespace \<open>files\<close>: the tagged family
  \<open>shape\<close> with subtype \<open>circle\<close>, with and without fields and catch-all; the closed union
  \<open>color\<close>; a struct with a list of tags.
\<close>

definition files_state :: gen_state where
  "files_state = initial_state ''Files''"

definition no_default :: literal where
  "no_default = LitText []"

definition radius_field :: field where
  "radius_field = \<lparr>field_name = ''radius'', field_data_type = Plain (Numeric Int32 None None),
                    field_has_default = False, field_default = no_default\<rparr>"

definition label_field :: field where
  "label_field = \<lparr>field_name = ''label'', field_data_type = Plain (String None None None),
                   field_has_default = False, field_default = no_default\<rparr>"

definition circle_ref :: data_type where
  "circle_ref = Plain (Composite StructType ''circle'' ''files'')"

definition shape :: struct where
  "shape = Struct ''shape'' ''files'' [label_field] None [(''circle'', circle_ref)] False"

definition circle :: struct where
  "circle = Struct ''circle'' ''files'' [radius_field] (Some shape) [] False"

definition open_shape :: struct where
  "open_shape = Struct ''shape'' ''files'' [label_field] None [(''circle'', circle_ref)] True"

definition bare_shape :: struct where
  "bare_shape = Struct ''shape'' ''files'' [] None [(''circle'', circle_ref)] False"

definition red :: union_field where
  "red = \<lparr>ufield_name = ''red'', ufield_data_type = Plain Void\<rparr>"

definition green :: union_field where
  "green = \<lparr>ufield_name = ''green'', ufield_data_type = Plain Void\<rparr>"

definition blue :: union_field where
  "blue = \<lparr>ufield_name = ''blue'', ufield_data_type = Plain Void\<rparr>"

definition other :: union_field where
  "other = \<lparr>ufield_name = ''other'', ufield_data_type = Plain Void\<rparr>"

definition color :: union where
  "color = \<lparr>union_name = ''color'', union_namespace = ''files'',
             union_fields = [red, green, blue], catch_all_field = None\<rparr>"

definition open_color :: union where
  "open_color = \<lparr>union_name = ''color'', union_namespace = ''files'',
                  union_fields = [red, other], catch_all_field = Some other\<rparr>"

definition tags_field :: field where
  "tags_field = \<lparr>field_name = ''tags'',
                  field_data_type = Plain (List (Plain (String None None None)) None None),
                  field_has_default = False, field_default = no_default\<rparr>"


definition title_field :: field where
  "title_field = \<lparr>field_name = ''title'', field_data_type = Plain (String None None None),
                   field_has_default = True, field_default = LitText ''untitled''\<rparr>"

definition titled :: struct where
  "titled = Struct ''titled'' ''files'' [title_field] None [] False"

definition post :: struct where
  "post = Struct ''post'' ''files'' [title_field, tags_field] None [] False"

text \<open>
  A run-time environment for the examples: the dynamic type of \<open>this\<close> and the wire are
  given; no range check fires, an accessor fails on an absent entry, and other classes
  encode to nothing and decode to a fresh object.
\<close>

definition example_env :: "(string \<Rightarrow> bool) \<Rightarrow> (string \<times> val) list \<Rightarrow> env" where
  "example_env is_a entries =
     \<lparr>this_is = is_a,
      check_holds = (\<lambda>vars check. False),
      wire = entries,
      on_absent = (\<lambda>n. Inl (Thrown ''KeyNotFoundException'')),
      encode_of = (\<lambda>t. []),
      decode_of = (\<lambda>t. Inr (Fresh t))\<rparr>"

section \<open>Properties of the generator\<close>

subsection \<open>Error propagation\<close>

lemma bind_err_Inr:
  "bind_err m k = Inr y \<longleftrightarrow> (\<exists>x. m = Inr x \<and> k x = Inr y)"
  by (cases m) (simp_all add: bind_err_def)

lemma bind_err_Inr_simp [simp]: "bind_err (Inr x) k = k x"
  by (simp add: bind_err_def)

lemma bind_err_Inl_simp [simp]: "bind_err (Inl e) k = Inl e"
  by (simp add: bind_err_def)

lemma map_err_length: "map_err g xs = Inr ys \<Longrightarrow> length ys = length xs"
  by (induction xs arbitrary: ys) (auto split: sum.splits)

lemma map_err_Nil_iff: "map_err g xs = Inr ys \<Longrightarrow> ys = [] \<longleftrightarrow> xs = []"
  using map_err_length [of g xs ys] by auto

lemma map_err_nth:
  "map_err g xs = Inr ys \<Longrightarrow> i < length xs \<Longrightarrow> g (xs ! i) = Inr (ys ! i)"
proof (induction xs arbitrary: ys i)
  case Nil
  then show ?case by simp
next
  case (Cons x xs)
  then show ?case by (cases i) (auto split: sum.splits)
qed

lemma map_err_total:
  "(\<And>x. x \<in> set xs \<Longrightarrow> g x = Inr (h x)) \<Longrightarrow> map_err g xs = Inr (map h xs)"
  by (induction xs) auto

lemma map_err_set:
  "map_err g xs = Inr ys \<Longrightarrow> y \<in> set ys \<longleftrightarrow> (\<exists>x \<in> set xs. g x = Inr y)"
  by (induction xs arbitrary: ys) (auto split: sum.splits)

subsection \<open>Segmentation is stable under re-joining\<close>

lemma split_char_not_Nil: "split_char sep s \<noteq> []"
  by (induction s) (auto split: list.splits)

lemma join_split_char: "join [sep] (split_char sep s) = s"
proof (induction s)
  case Nil
  show ?case by simp
next
  case (Cons c cs)
  obtain w ws where sp: "split_char sep cs = w # ws"
    using split_char_not_Nil [of sep cs] by (cases "split_char sep cs") auto
  show ?case
  proof (cases "c = sep")
    case True
    with Cons sp show ?thesis by simp
  next
    case False
    with Cons sp show ?thesis by (cases ws) auto
  qed
qed

lemma lower_char_not_upper: "\<not> is_upper (lower_char c)"
  by (auto simp: lower_char_def is_upper_def)

lemma lower_char_fixed: "\<not> is_upper c \<Longrightarrow> lower_char c = c"
  by (simp add: lower_char_def)

lemma lower_char_slash: "lower_char c = CHR ''/'' \<longleftrightarrow> c = CHR ''/''"
proof
  assume h: "lower_char c = CHR ''/''"
  show "c = CHR ''/''"
  proof (cases "is_upper c")
    case True
    then have "(of_char (lower_char c) :: nat) = of_char c + 32"
      by (simp add: lower_char_def is_upper_def)
    with h True show ?thesis by (simp add: is_upper_def)
  next
    case False
    with h show ?thesis by (simp add: lower_char_def)
  qed
next
  assume "c = CHR ''/''"
  then show "lower_char c = CHR ''/''" by (simp add: lower_char_def is_upper_def)
qed

lemma camel_case_sub_no_upper:
  "\<forall>c \<in> set s. \<not> is_upper c \<Longrightarrow> camel_case_sub prev s = s"
  by (induction s arbitrary: prev) auto

lemma camel_case_sub_no_slash:
  "CHR ''/'' \<notin> set s \<Longrightarrow> CHR ''/'' \<notin> set (camel_case_sub prev s)"
  by (induction s arbitrary: prev) auto

lemma replace_slash_no_slash: "CHR ''/'' \<notin> set (replace_slash s)"
  by (auto simp: replace_slash_def)

lemma replace_slash_fixed: "CHR ''/'' \<notin> set s \<Longrightarrow> replace_slash s = s"
  by (induction s) (auto simp: replace_slash_def)

lemma lower_no_upper: "\<forall>c \<in> set (lower s). \<not> is_upper c"
  by (auto simp: lower_def lower_char_not_upper)

lemma lower_fixed: "\<forall>c \<in> set s. \<not> is_upper c \<Longrightarrow> lower s = s"
  by (induction s) (auto simp: lower_def lower_char_fixed)

lemma lower_no_slash: "CHR ''/'' \<notin> set s \<Longrightarrow> CHR ''/'' \<notin> set (lower s)"
proof
  assume a: "CHR ''/'' \<notin> set s" and "CHR ''/'' \<in> set (lower s)"
  then obtain c where c: "c \<in> set s" "lower_char c = CHR ''/''"
    by (auto simp: lower_def)
  from c(2) have "c = CHR ''/''" by (simp only: lower_char_slash)
  with c(1) a show False by simp
qed

lemma join_segment_name:
  "join ''_'' (segment_name x) = lower (camel_case_sub None (replace_slash x))"
  unfolding segment_name_def by (rule join_split_char)

text \<open>
  C9. For every name \<open>x\<close>, segmenting the underscore-rejoin of its segmentation gives
  the segmentation of \<open>x\<close>: \<open>segment("_".join(segment(x))) == segment(x)\<close>.
\<close>

theorem segment_name_rejoin_idempotent:
  "segment_name (join ''_'' (segment_name x)) = segment_name x"
proof -
  define l where "l = lower (camel_case_sub None (replace_slash x))"
  have no_up: "\<forall>c \<in> set l. \<not> is_upper c"
    unfolding l_def by (rule lower_no_upper)
  have no_sl: "CHR ''/'' \<notin> set l"
    unfolding l_def
    by (intro lower_no_slash camel_case_sub_no_slash replace_slash_no_slash)
  have "lower (camel_case_sub None (replace_slash l)) = l"
    using no_up no_sl
    by (simp add: replace_slash_fixed camel_case_sub_no_upper lower_fixed)
  then have "segment_name l = split_char (CHR ''_'') l"
    by (simp add: segment_name_def)
  moreover have "join ''_'' (segment_name x) = l"
    unfolding l_def by (rule join_segment_name)
  moreover have "segment_name x = split_char (CHR ''_'') l"
    by (simp add: segment_name_def l_def)
  ultimately show ?thesis by simp
qed

subsection \<open>Scope-local collision resolution\<close>








subsection \<open>Access of the initializing constructor\<close>

lemma init_ctor_before:
  assumes "generate_struct_init_ctor st s class_name parent pf = Inr c"
  shows "ctor_before c =
           (if has_enumerated_subtypes s \<and> all_fields s \<noteq> [] then ''protected'' else ''public'')
           @ '' '' @ class_name"
proof -
  from assms obtain ctor_args where
    args: "make_struct_constructor_args st s = Inr ctor_args" and
    before: "ctor_before c =
      (if has_enumerated_subtypes s \<and> ctor_args \<noteq> [] then ''protected'' else ''public'')
      @ '' '' @ class_name"
    unfolding generate_struct_init_ctor_def bind_err_Inr by auto
  from args have "ctor_args = [] \<longleftrightarrow> all_fields s = []"
    unfolding make_struct_constructor_args_def by (rule map_err_Nil_iff)
  with before show ?thesis by simp
qed

text \<open>
  C10. The initializing constructor of a generated struct class is declared
  \<open>protected\<close> when the struct has enumerated subtypes and at least one constructor argument
  (one per field of \<open>all_fields\<close>), and \<open>public\<close> for every other struct.
\<close>

theorem init_ctor_access:
  assumes "generate_struct st s = Inr cls"
  shows "ctor_before (sc_init_ctor cls) =
           (if has_enumerated_subtypes s \<and> all_fields s \<noteq> []
            then ''protected '' @ public_name (struct_name s)
            else ''public '' @ public_name (struct_name s))"
proof -
  from assms obtain tp pf where
    "generate_struct_init_ctor st s (public_name (struct_name s)) tp pf = Inr (sc_init_ctor cls)"
    unfolding generate_struct_def Let_def bind_err_Inr by auto
  from init_ctor_before [OF this] show ?thesis by simp
qed

lemma shape_generated: "\<not> isl (generate_struct files_state shape)"
  by code_simp

lemma shape_tagged: "has_enumerated_subtypes shape \<and> all_fields shape \<noteq> []"
  by code_simp

lemma public_name_shape: "public_name (struct_name shape) = ''Shape''"
  by code_simp

theorem init_ctor_access_witness:
  "\<exists>cls. generate_struct files_state shape = Inr cls
     \<and> ctor_before (sc_init_ctor cls) = ''protected Shape''"
proof -
  from shape_generated obtain cls where g: "generate_struct files_state shape = Inr cls"
    by (cases "generate_struct files_state shape") auto
  from init_ctor_access [OF g] shape_tagged public_name_shape
  have "ctor_before (sc_init_ctor cls) = ''protected Shape''" by simp
  with g show ?thesis by blast
qed

subsection \<open>Decoding an unrecognized tag\<close>

lemma quoted_inject [simp]: "quoted a = quoted b \<longleftrightarrow> a = b"
  by (simp add: quoted_def)











lemma color_closed: "catch_all_field color = None"
  by (simp add: color_def)



subsection \<open>The union's encode dispatch\<close>

lemma union_encode_branches_Suc:
  "union_encode_branches u (Suc k) fs = map (union_encode_branch u (Suc 0)) fs"
  by (induction fs arbitrary: k) (simp_all add: union_encode_branch_def)

lemma union_has_catch_all_Suc:
  "union_has_catch_all u (Suc k) fs \<longleftrightarrow> (\<exists>f \<in> set fs. catch_all_field u = Some f)"
  by (induction fs arbitrary: k) auto

lemma exec_taken_skip:
  assumes "\<forall>f \<in> set (butlast ps). catch_all_field u \<noteq> Some f"
    and "tail = [] \<or> (tail = [Else b] \<and> (\<forall>f \<in> set ps. catch_all_field u \<noteq> Some f))"
  shows "exec e Taken (map (union_encode_branch u (Suc 0)) ps @ tail) h = Inr h"
  using assms
proof (induction ps)
  case Nil
  then show ?case by auto
next
  case (Cons p ps)
  show ?case
  proof (cases "catch_all_field u = Some p")
    case True
    with Cons.prems have "ps = []" "tail = []" by (auto split: if_splits)
    with True show ?thesis by (simp add: union_encode_branch_def [of u _ p])
  next
    case False
    have "exec e Taken (map (union_encode_branch u (Suc 0)) ps @ tail) h = Inr h"
      using Cons.prems by (intro Cons.IH) (auto split: if_splits)
    with False show ?thesis by (simp add: union_encode_branch_def [of u _ p])
  qed
qed

lemma exec_not_taken_skip:
  assumes "\<forall>f \<in> set ps. catch_all_field u \<noteq> Some f \<and> \<not> this_is e (public_name (ufield_name f))"
  shows "exec e NotTaken (map (union_encode_branch u (Suc 0)) ps @ rest) h
           = exec e NotTaken rest h"
  using assms
proof (induction ps)
  case Nil
  show ?case by simp
next
  case (Cons p ps)
  then show ?case by (simp add: union_encode_branch_def [of u _ p])
qed


lemma union_encode_body_Cons:
  "union_fields u = f0 # fs \<Longrightarrow>
   union_encode_body u =
     If (ThisIs (public_name (ufield_name f0))) [Encode (public_name (ufield_name f0)) ThisObject]
     # map (union_encode_branch u (Suc 0)) fs
     @ (if \<exists>f \<in> set fs. catch_all_field u = Some f then [] else [Else [INVALID_OPERATION]])"
  by (simp add: union_encode_body_def union_encode_branches_Suc union_has_catch_all_Suc
        union_encode_branch_def [of u 0 f0])

lemma exec_encode_this:
  "this_is e x \<Longrightarrow>
   exec e NoChain [Encode x ThisObject] h = Inr (h\<lparr>written := written h @ encode_of e x\<rparr>)"
  by simp

lemma union_encode_selects:
  assumes t: "t \<in> set (union_fields u)"
    and dist: "distinct_variants u"
    and placed: "catch_all_placed u"
    and is_t: "\<forall>x. this_is e x \<longleftrightarrow> x = public_name (ufield_name t)"
  shows "run e (union_encode_body u) h
           = Inr (h\<lparr>written := written h @ encode_of e (public_name (ufield_name t))\<rparr>)"
proof -
  let ?P = "\<lambda>f. public_name (ufield_name f)"
  let ?h' = "h\<lparr>written := written h @ encode_of e (?P t)\<rparr>"
  from t obtain f0 fs where fields: "union_fields u = f0 # fs"
    by (cases "union_fields u") auto
  let ?tail = "if \<exists>f \<in> set fs. catch_all_field u = Some f then [] else [Else [INVALID_OPERATION]]"
  have body: "union_encode_body u =
      If (ThisIs (?P f0)) [Encode (?P f0) ThisObject]
      # map (union_encode_branch u (Suc 0)) fs @ ?tail"
    by (rule union_encode_body_Cons [OF fields])
  have no_mid: "\<forall>f \<in> set (butlast fs). catch_all_field u \<noteq> Some f"
    using placed fields by (auto simp: catch_all_placed_def split: option.splits)
  have tail_ok: "?tail = [] \<or> (?tail = [Else [INVALID_OPERATION]]
      \<and> (\<forall>f \<in> set ps. catch_all_field u \<noteq> Some f))" if "set ps \<subseteq> set fs" for ps
    using that by auto
  have enc: "exec e NoChain [Encode (?P t) ThisObject] h = Inr ?h'"
    using is_t by (intro exec_encode_this) simp
  have ret: "returned ?h' = returned h" by simp
  show ?thesis
  proof (cases "t = f0")
    case True
    have skip: "exec e Taken (map (union_encode_branch u (Suc 0)) fs @ ?tail) ?h' = Inr ?h'"
      by (rule exec_taken_skip [OF no_mid tail_ok]) simp
    show ?thesis
      unfolding run_def body using True is_t enc skip by simp
  next
    case False
    with t fields have "t \<in> set fs" by simp
    then obtain pre post where split: "fs = pre @ t # post" "t \<notin> set pre"
      by (auto dest: split_list_first)
    from dist fields have inj: "distinct (map ?P (f0 # fs))"
      by (simp add: distinct_variants_def)
    have f0_no: "\<not> this_is e (?P f0)"
      using inj is_t \<open>t \<in> set fs\<close> by auto
    have pre_no: "\<forall>f \<in> set pre. catch_all_field u \<noteq> Some f \<and> \<not> this_is e (?P f)"
    proof
      fix f assume f: "f \<in> set pre"
      with split no_mid have "catch_all_field u \<noteq> Some f"
        by (auto simp: butlast_append)
      moreover have "?P f \<noteq> ?P t"
      proof -
        from inj split have "?P t \<notin> ?P ` set pre" by simp
        moreover from f have "?P f \<in> ?P ` set pre" by (rule imageI)
        ultimately show ?thesis by metis
      qed
      ultimately show "catch_all_field u \<noteq> Some f \<and> \<not> this_is e (?P f)"
        using is_t by simp
    qed
    have step1: "exec e NoChain (union_encode_body u) h
        = exec e NotTaken (union_encode_branch u (Suc 0) t
            # map (union_encode_branch u (Suc 0)) post @ ?tail) h"
      unfolding body split using f0_no exec_not_taken_skip [OF pre_no] by simp
    show ?thesis
    proof (cases "catch_all_field u = Some t")
      case True
      with no_mid split have post: "post = []"
        by (auto simp: butlast_append split: if_splits)
      have tl: "?tail = []" using True \<open>t \<in> set fs\<close> by auto
      show ?thesis
        unfolding run_def step1 post using True is_t tl enc
        by (simp add: union_encode_branch_def [of u _ t])
    next
      case False
      have no_mid_post: "\<forall>f \<in> set (butlast post). catch_all_field u \<noteq> Some f"
        using no_mid split by (auto simp: butlast_append split: if_splits)
      have skip: "exec e Taken (map (union_encode_branch u (Suc 0)) post @ ?tail) ?h' = Inr ?h'"
        by (rule exec_taken_skip [OF no_mid_post tail_ok]) (use split in auto)
      show ?thesis
        unfolding run_def step1 using False is_t enc skip
        by (simp add: union_encode_branch_def [of u _ t])
    qed
  qed
qed

lemma union_encode_no_match:
  assumes "union_fields u \<noteq> []" and "catch_all_field u = None"
    and "\<forall>f \<in> set (union_fields u). \<not> this_is e (public_name (ufield_name f))"
  shows "run e (union_encode_body u) h = Inl (Thrown ''InvalidOperationException'')"
proof -
  from assms(1) obtain f0 fs where fields: "union_fields u = f0 # fs"
    by (cases "union_fields u") auto
  have no: "\<forall>f \<in> set fs. catch_all_field u \<noteq> Some f \<and> \<not> this_is e (public_name (ufield_name f))"
    using assms fields by simp
  have f0: "\<not> this_is e (public_name (ufield_name f0))"
    using assms fields by simp
  show ?thesis
    unfolding run_def union_encode_body_Cons [OF fields]
    using f0 assms(2) exec_not_taken_skip [OF no]
    by (simp add: INVALID_OPERATION_def)
qed

lemma union_field_encode_writes:
  "run e (union_field_encode f) h =
     Inr (h\<lparr>written := written h @ (''.tag'', Prim (ufield_name f))
             # (if is_void_type (ufield_data_type f) then []
                else [(ufield_name f, case props h ''Value'' of None \<Rightarrow> Null | Some v \<Rightarrow> v)])\<rparr>)"
  by (simp add: run_def union_field_encode_def)

text \<open>
  C3 (amended). For a union whose variants have pairwise different public names and whose
  catch-all variant, if any, is declared first or last: the generated \<open>Encode\<close> starts
  with the identity check of the first variant, continues with one branch per later
  variant in declared order (a bare \<open>else\<close> for the catch-all, an identity check for every
  other), and ends with the throwing \<open>else\<close> unless a later variant is the catch-all; run
  on an instance of a declared variant it does what the delegation to that variant's own
  encode does; the variant's own encode writes the tag entry, and the value entry when the
  variant is not void; and with no catch-all and no variant matching it raises the
  invalid-state error.
\<close>

theorem union_encode_dispatch:
  "(union_fields u = f0 # fs \<longrightarrow>
      union_encode_body u =
        If (ThisIs (public_name (ufield_name f0)))
           [Encode (public_name (ufield_name f0)) ThisObject]
        # map (union_encode_branch u (Suc 0)) fs
        @ (if \<exists>f \<in> set fs. catch_all_field u = Some f then [] else [Else [INVALID_OPERATION]]))
   \<and> (t \<in> set (union_fields u) \<longrightarrow> distinct_variants u \<longrightarrow> catch_all_placed u
        \<longrightarrow> (\<forall>x. this_is e x \<longleftrightarrow> x = public_name (ufield_name t))
        \<longrightarrow> run e (union_encode_body u) h
             = Inr (h\<lparr>written := written h @ encode_of e (public_name (ufield_name t))\<rparr>))
   \<and> run e (union_field_encode t) h =
        Inr (h\<lparr>written := written h @ (''.tag'', Prim (ufield_name t))
                # (if is_void_type (ufield_data_type t) then []
                   else [(ufield_name t,
                          case props h ''Value'' of None \<Rightarrow> Null | Some v \<Rightarrow> v)])\<rparr>)
   \<and> (union_fields u \<noteq> [] \<longrightarrow> catch_all_field u = None
        \<longrightarrow> (\<forall>f \<in> set (union_fields u). \<not> this_is e (public_name (ufield_name f)))
        \<longrightarrow> run e (union_encode_body u) h = Inl (Thrown ''InvalidOperationException''))"
  using union_encode_body_Cons [of u f0 fs] union_encode_selects [of t u e h]
    union_field_encode_writes [of e t h] union_encode_no_match [of u e h]
  by blast

lemma public_name_green: "public_name (ufield_name green) = ''Green''"
  by code_simp

lemma color_fields: "green \<in> set (union_fields color) \<and> union_fields color \<noteq> []"
  by (simp add: color_def)

lemma color_distinct: "distinct_variants color"
  by code_simp

lemma color_placed: "catch_all_placed color"
  by (simp add: catch_all_placed_def color_def)

lemma color_variants_public:
  "\<forall>f \<in> set (union_fields color). public_name (ufield_name f) \<in> {''Red'', ''Green'', ''Blue''}"
  by code_simp

text \<open>
  The closed union \<open>color\<close>: a \<open>green\<close> instance is encoded by the \<open>Green\<close> class, which
  writes its tag; an instance of no variant raises the invalid-state error.
\<close>

theorem union_encode_dispatch_witness:
  "run (example_env (\<lambda>x. x = ''Green'') []) (union_encode_body color) (fresh_heap Map.empty)
     = Inr ((fresh_heap Map.empty)
              \<lparr>written := encode_of (example_env (\<lambda>x. x = ''Green'') []) ''Green''\<rparr>)
   \<and> run (example_env (\<lambda>x. False) []) (union_field_encode green) (fresh_heap Map.empty)
     = Inr ((fresh_heap Map.empty)\<lparr>written := [(''.tag'', Prim ''green'')]\<rparr>)
   \<and> run (example_env (\<lambda>x. False) []) (union_encode_body color) (fresh_heap Map.empty)
     = Inl (Thrown ''InvalidOperationException'')"
proof -
  let ?e1 = "example_env (\<lambda>x. x = ''Green'') []"
  let ?e0 = "example_env (\<lambda>x. False) []"
  have is_green: "\<forall>x. this_is ?e1 x \<longleftrightarrow> x = public_name (ufield_name green)"
    by (simp add: public_name_green example_env_def)
  have none: "\<forall>f \<in> set (union_fields color). \<not> this_is ?e0 (public_name (ufield_name f))"
    by (simp add: example_env_def)
  have void: "is_void_type (ufield_data_type green)" "ufield_name green = ''green''"
    by (simp_all add: green_def is_void_type_def)
  from union_encode_dispatch [where u = color and t = green and e = ?e1
      and h = "fresh_heap Map.empty"]
    color_fields color_distinct color_placed is_green
  have a: "run ?e1 (union_encode_body color) (fresh_heap Map.empty)
      = Inr ((fresh_heap Map.empty)\<lparr>written := encode_of ?e1 ''Green''\<rparr>)"
    by (simp add: public_name_green fresh_heap_def)
  from union_encode_dispatch [where u = color and t = green and e = ?e0
      and h = "fresh_heap Map.empty"]
    color_fields color_closed none void
  have b: "run ?e0 (union_field_encode green) (fresh_heap Map.empty)
      = Inr ((fresh_heap Map.empty)\<lparr>written := [(''.tag'', Prim ''green'')]\<rparr>)"
    and c: "run ?e0 (union_encode_body color) (fresh_heap Map.empty)
      = Inl (Thrown ''InvalidOperationException'')"
    by (simp_all add: fresh_heap_def)
  from a b c show ?thesis by blast
qed

text \<open>
  The claim as stated fails on the open union with the variants \<open>red\<close> and catch-all
  \<open>other\<close>: the catch-all has no identity check, so an object that is none of the variants
  is handed to the encode of \<open>Other\<close>, where the cast fails.
\<close>

lemma open_color_encode:
  "union_encode_body open_color =
     [If (ThisIs ''Red'') [Encode ''Red'' ThisObject], Else [Encode ''Other'' ThisObject]]"
  by code_simp

theorem union_encode_catch_all_unchecked:
  "union_encode_body open_color =
     [If (ThisIs ''Red'') [Encode ''Red'' ThisObject], Else [Encode ''Other'' ThisObject]]
   \<and> run (example_env (\<lambda>x. False) []) (union_encode_body open_color) (fresh_heap Map.empty)
     = Inl (Thrown ''InvalidCastException'')"
  by (simp add: open_color_encode run_def example_env_def)

text \<open>
  A catch-all declared between two variants gives an \<open>else\<close> followed by an \<open>else if\<close>,
  which is not a C\# statement sequence; an instance of the variant after it is not encoded.
\<close>

lemma middle_catch_all_encode:
  "union_encode_body (open_color\<lparr>union_fields := [red, other, blue]\<rparr>) =
     [If (ThisIs ''Red'') [Encode ''Red'' ThisObject],
      Else [Encode ''Other'' ThisObject],
      ElseIf (ThisIs ''Blue'') [Encode ''Blue'' ThisObject]]"
  by code_simp

lemma union_encode_middle_catch_all:
  "run (example_env (\<lambda>x. x = ''Blue'') [])
        (union_encode_body (open_color\<lparr>union_fields := [red, other, blue]\<rparr>))
        (fresh_heap Map.empty)
     = Inl (Thrown ''InvalidCastException'')"
  by (simp add: middle_catch_all_encode run_def example_env_def)

subsection \<open>Null checks of the initializing constructor\<close>

lemma null_check_in_check_constraints:
  "If (IsNull a) [Throw ''ArgumentNullException'' (Some a)]
     \<in> set (check_constraints st b dt has_null_check)
   \<longleftrightarrow> a = b \<and> \<not> is_nullable_type dt \<and> could_be_null (unwrap_nullable dt) \<and> \<not> has_null_check"
  by (auto simp: check_constraints_def Let_def list_copy_def
           split: data_type.splits plain_type.splits)

lemma null_check_not_in_union_default:
  "process_composite_default g True = Inr d \<Longrightarrow>
   If (IsNull a) [Throw ''ArgumentNullException'' (Some a)] \<notin> set d"
  by (auto simp: process_composite_default_def process_union_default_def bind_err_Inr
           split: if_splits literal.splits)

lemma null_check_in_init_ctor_checks:
  assumes "init_ctor_checks st g = Inr ss"
  shows "If (IsNull a) [Throw ''ArgumentNullException'' (Some a)] \<in> set ss
         \<longleftrightarrow> arg_name (field_name g) = Inr a
             \<and> \<not> is_nullable_type (field_data_type g)
             \<and> could_be_null (unwrap_nullable (field_data_type g))
             \<and> \<not> (field_has_default g \<and> is_composite_type (field_data_type g))"
  using assms null_check_not_in_union_default [of g _ a]
  by (auto simp: init_ctor_checks_def bind_err_Inr null_check_in_check_constraints
           split: if_splits)

lemma null_check_not_assign:
  "init_ctor_assign g = Inr x \<Longrightarrow> x \<noteq> If c body"
  by (auto simp: init_ctor_assign_def bind_err_Inr split: if_splits)

text \<open>
  C4. For a field that the initializing constructor handles itself and whose type,
  nullable wrapper apart, is reference-like (composite, string or list), the constructor
  contains the null-rejection check on the field's argument, which throws
  \<open>ArgumentNullException\<close> naming that argument, exactly when the field is not nullable and
  is not a composite field with a declared default. The check, run with a null argument,
  throws.
\<close>

theorem init_ctor_null_check:
  assumes gen: "generate_struct_init_ctor st s class_name parent pf = Inr c"
    and f: "f \<in> set (own_fields s pf)"
    and ref: "could_be_null (unwrap_nullable (field_data_type f))"
    and a: "arg_name (field_name f) = Inr a"
    and uniq: "\<forall>g \<in> set (own_fields s pf). arg_name (field_name g) = Inr a \<longrightarrow> g = f"
  shows "(If (IsNull a) [Throw ''ArgumentNullException'' (Some a)] \<in> set (ctor_body c)
          \<longleftrightarrow> \<not> is_nullable_type (field_data_type f)
              \<and> \<not> (field_has_default f \<and> is_composite_type (field_data_type f)))
       \<and> (locals h a = Some Null \<longrightarrow>
            run e [If (IsNull a) [Throw ''ArgumentNullException'' (Some a)]] h
              = Inl (Thrown ''ArgumentNullException''))"
proof -
  let ?nc = "If (IsNull a) [Throw ''ArgumentNullException'' (Some a)]"
  let ?rhs = "\<not> is_nullable_type (field_data_type f)
              \<and> \<not> (field_has_default f \<and> is_composite_type (field_data_type f))"
  from gen obtain checks assigns where
    checks: "map_err (init_ctor_checks st) (own_fields s pf) = Inr checks" and
    assigns: "map_err init_ctor_assign (own_fields s pf) = Inr assigns" and
    body: "ctor_body c = concat checks @ assigns"
    by (auto simp: generate_struct_init_ctor_def bind_err_Inr)
  have not_assign: "?nc \<notin> set assigns"
    using map_err_set [OF assigns] null_check_not_assign by blast
  have in_body: "?nc \<in> set (ctor_body c) \<longleftrightarrow> (\<exists>ss \<in> set checks. ?nc \<in> set ss)"
    unfolding body set_append set_concat using not_assign by blast
  have forth: ?rhs if "?nc \<in> set (ctor_body c)"
  proof -
    from that in_body obtain ss where ss: "ss \<in> set checks" "?nc \<in> set ss" by blast
    from ss(1) map_err_set [OF checks, of ss] obtain g where
      g: "g \<in> set (own_fields s pf)" "init_ctor_checks st g = Inr ss" by blast
    from null_check_in_init_ctor_checks [OF g(2), of a] ss(2)
    have props: "arg_name (field_name g) = Inr a"
      "\<not> is_nullable_type (field_data_type g)"
      "\<not> (field_has_default g \<and> is_composite_type (field_data_type g))"
      by blast+
    from uniq g(1) props(1) have "g = f" by blast
    with props show ?thesis by blast
  qed
  have back_dir: "?nc \<in> set (ctor_body c)" if ?rhs
  proof -
    from f obtain i where i: "i < length (own_fields s pf)" "own_fields s pf ! i = f"
      unfolding in_set_conv_nth by blast
    from map_err_nth [OF checks i(1)] i(2) obtain ss where
      ss: "init_ctor_checks st f = Inr ss" by auto
    from null_check_in_init_ctor_checks [OF ss, of a] that a ref
    have "?nc \<in> set ss" by blast
    moreover from ss f map_err_set [OF checks, of ss] have "ss \<in> set checks" by blast
    ultimately show ?thesis using in_body by blast
  qed
  have throws: "locals h a = Some Null \<longrightarrow> run e [?nc] h = Inl (Thrown ''ArgumentNullException'')"
    by (simp add: run_def)
  from forth back_dir throws show ?thesis by blast
qed


lemma shape_init_ctor:
  "generate_struct_init_ctor files_state shape ''Shape'' None {} =
     Inr \<lparr>ctor_before = ''protected Shape'', ctor_params = [''string label''],
          ctor_base = None,
          ctor_body = [If (IsNull ''label'') [Throw ''ArgumentNullException'' (Some ''label'')],
                       Blank,
                       Assign (This ''Label'') (Arg ''label'')]\<rparr>"
  by code_simp

lemma shape_own_fields: "own_fields shape {} = [label_field]"
  by code_simp

lemma label_field_facts:
  "could_be_null (unwrap_nullable (field_data_type label_field))
   \<and> arg_name (field_name label_field) = Inr ''label''
   \<and> \<not> is_nullable_type (field_data_type label_field)
   \<and> \<not> field_has_default label_field"
  by code_simp

text \<open>
  The family root \<open>shape\<close>: its field \<open>label\<close>, a string without default, is checked.
\<close>

theorem init_ctor_null_check_witness:
  "\<exists>c. generate_struct_init_ctor files_state shape ''Shape'' None {} = Inr c
     \<and> label_field \<in> set (own_fields shape {})
     \<and> If (IsNull ''label'') [Throw ''ArgumentNullException'' (Some ''label'')]
          \<in> set (ctor_body c)
     \<and> run (example_env (\<lambda>x. False) [])
          [If (IsNull ''label'') [Throw ''ArgumentNullException'' (Some ''label'')]]
          (fresh_heap [''label'' \<mapsto> Null])
        = Inl (Thrown ''ArgumentNullException'')"
proof -
  let ?h = "fresh_heap [''label'' \<mapsto> Null]"
  have f: "label_field \<in> set (own_fields shape {})"
    by (simp add: shape_own_fields)
  have uniq: "\<forall>g \<in> set (own_fields shape {}).
      arg_name (field_name g) = Inr ''label'' \<longrightarrow> g = label_field"
    by (simp add: shape_own_fields)
  have h: "locals ?h ''label'' = Some Null"
    by (simp add: fresh_heap_def)
  from init_ctor_null_check [OF shape_init_ctor f _ _ uniq, of ?h "example_env (\<lambda>x. False) []"]
    label_field_facts h f shape_init_ctor
  show ?thesis by simp
qed

lemma titled_init_ctor:
  "generate_struct_init_ctor files_state titled ''Titled'' None {} =
     Inr \<lparr>ctor_before = ''public Titled'', ctor_params = [''string title = untitled''],
          ctor_base = None,
          ctor_body = [If (IsNull ''title'') [Throw ''ArgumentNullException'' (Some ''title'')],
                       Blank,
                       Assign (This ''Title'') (Arg ''title'')]\<rparr>"
  by code_simp

text \<open>
  A string field with a declared default is still null-checked: the struct \<open>titled\<close> has
  the single field \<open>title\<close> with default \<open>untitled\<close>, and its constructor throws on a null
  title. Only a composite (union) default replaces the check, by substituting the default
  for a null argument.
\<close>

theorem init_ctor_null_check_despite_default:
  "field_has_default title_field
   \<and> \<not> is_nullable_type (field_data_type title_field)
   \<and> all_fields titled = [title_field]
   \<and> generate_struct_init_ctor files_state titled ''Titled'' None {} =
       Inr \<lparr>ctor_before = ''public Titled'', ctor_params = [''string title = untitled''],
            ctor_base = None,
            ctor_body = [If (IsNull ''title'') [Throw ''ArgumentNullException'' (Some ''title'')],
                         Blank,
                         Assign (This ''Title'') (Arg ''title'')]\<rparr>
   \<and> run (example_env (\<lambda>x. False) [])
         [If (IsNull ''title'') [Throw ''ArgumentNullException'' (Some ''title'')],
          Blank,
          Assign (This ''Title'') (Arg ''title'')]
         (fresh_heap [''title'' \<mapsto> Null])
       = Inl (Thrown ''ArgumentNullException'')"
proof -
  have "field_has_default title_field \<and> \<not> is_nullable_type (field_data_type title_field)
      \<and> all_fields titled = [title_field]"
    by code_simp
  moreover have "run (example_env (\<lambda>x. False) [])
         [If (IsNull ''title'') [Throw ''ArgumentNullException'' (Some ''title'')],
          Blank,
          Assign (This ''Title'') (Arg ''title'')]
         (fresh_heap [''title'' \<mapsto> Null])
       = Inl (Thrown ''ArgumentNullException'')"
    by (simp add: run_def fresh_heap_def)
  ultimately show ?thesis using titled_init_ctor by blast
qed

subsection \<open>The zero-argument constructor\<close>















end
